theory Spec2Isabelle
  imports Complex_Main
begin

section \<open>JavaScript values, objects and errors\<close>

text \<open>
  The TypeScript types of the repository are erased at run time, so the values that flow
  through the adapters are JavaScript values.  Only primitives occur in the code under
  study; \<open>JOther\<close> stands for every other value (an object, an array, a function).
  Numbers are carried around and compared with constants, never computed with; they are
  modelled by the reals, which is enough to tell integers from fractions and positive
  from non-positive numbers.
\<close>

datatype jsval = JUndefined | JNull | JBool bool | JNum real | JStr string | JOther

text \<open>
  An object with string keys, given by its own keys.  The objects of the code under study
  (a configuration, a row of a driver) are plain objects, so \<^verbatim>\<open>obj[k]\<close> for a key the
  object does not have itself is looked up on \<open>Object.prototype\<close>: the keys below give the
  inherited function or object, every other key gives \<open>undefined\<close>.
\<close>

type_synonym jsobj = "string \<Rightarrow> jsval option"

definition object_prototype_keys :: "string list" where
  "object_prototype_keys =
     [''constructor'', ''__defineGetter__'', ''__defineSetter__'', ''hasOwnProperty'',
      ''__lookupGetter__'', ''__lookupSetter__'', ''isPrototypeOf'', ''propertyIsEnumerable'',
      ''toString'', ''valueOf'', ''__proto__'', ''toLocaleString'']"

definition inherited :: "string \<Rightarrow> bool" where
  "inherited k = (k \<in> set object_prototype_keys)"

definition get_prop :: "jsobj \<Rightarrow> string \<Rightarrow> jsval" where
  "get_prop obj k =
     (case obj k of
        Some v \<Rightarrow> v
      | None \<Rightarrow> if inherited k then JOther else JUndefined)"

text \<open>\<^verbatim>\<open>a ?? b\<close>: the right operand replaces \<open>undefined\<close> and \<open>null\<close> only.\<close>

definition nullish :: "jsval \<Rightarrow> jsval \<Rightarrow> jsval" where
  "nullish a b = (if a = JUndefined \<or> a = JNull then b else a)"

text \<open>Truthiness, as \<^verbatim>\<open>a || b\<close> tests it.\<close>

fun truthy :: "jsval \<Rightarrow> bool" where
  "truthy JUndefined = False"
| "truthy JNull = False"
| "truthy (JBool b) = b"
| "truthy (JNum n) = (n \<noteq> 0)"
| "truthy (JStr s) = (s \<noteq> [])"
| "truthy JOther = True"

definition js_or :: "jsval \<Rightarrow> jsval \<Rightarrow> jsval" where
  "js_or a b = (if truthy a then a else b)"

text \<open>
  What the code can throw: \<^verbatim>\<open>new Error(msg)\<close>, a \<open>TypeError\<close> of the runtime
  (calling \<^verbatim>\<open>.map\<close> on something that is not an array), and the \<open>ZodError\<close> of a failed
  \<^verbatim>\<open>parse\<close>, which lists the paths of the fields that were refused.  A driver rejects
  with an error value of its own choice.
\<close>

datatype error = Error string | TypeError string | ZodError "string list"

section \<open>schemas.ts\<close>

record ConnectionConfig =
  db_type :: string
  host :: string
  port :: real
  database :: string
  username :: string
  password :: string

record SqlQuery =
  sql :: string
  params :: "jsval list option"

record ExplainQuery =
  ex_sql :: string
  ex_params :: "jsval list option"
  analyze :: bool

record ColumnSchema =
  col_name :: jsval
  col_type :: jsval
  nullable :: bool
  default_value :: jsval
  primary_key :: jsval

record ForeignKeySchema =
  fk_column :: jsval
  foreign_table :: jsval
  foreign_column :: jsval
  constraint_name :: jsval

record TableSchema =
  tbl_name :: jsval
  columns :: "ColumnSchema list"
  foreign_keys :: "ForeignKeySchema list"

record DatabaseLayout =
  layout_name :: jsval
  tables :: "TableSchema list"

text \<open>
  \<^verbatim>\<open>z.string()\<close> accepts every string, the empty one included; \<^verbatim>\<open>z.number().int().positive()\<close>
  accepts a number that is an integer and greater than zero; the union of the two
  literals accepts exactly these two strings; \<^verbatim>\<open>.default("localhost")\<close> replaces a
  missing value before the check.
\<close>

definition z_string :: "jsval \<Rightarrow> string option" where
  "z_string v = (case v of JStr s \<Rightarrow> Some s | _ \<Rightarrow> None)"

definition z_number_int_positive :: "jsval \<Rightarrow> real option" where
  "z_number_int_positive v =
     (case v of JNum n \<Rightarrow> if of_int \<lfloor>n\<rfloor> = n \<and> 0 < n then Some n else None | _ \<Rightarrow> None)"

definition z_type :: "jsval \<Rightarrow> string option" where
  "z_type v =
     (if v = JStr ''postgres'' then Some ''postgres''
      else if v = JStr ''mysql'' then Some ''mysql'' else None)"

definition z_default :: "jsval \<Rightarrow> jsval \<Rightarrow> jsval" where
  "z_default d v = (if v = JUndefined then d else v)"

text \<open>The paths of the fields that fail, in the order of the schema.\<close>

definition ConnectionConfigSchema_issues :: "jsobj \<Rightarrow> string list" where
  "ConnectionConfigSchema_issues input =
     (if z_type (get_prop input ''type'') = None then [''type''] else []) @
     (if z_string (z_default (JStr ''localhost'') (get_prop input ''host'')) = None
      then [''host''] else []) @
     (if z_number_int_positive (get_prop input ''port'') = None then [''port''] else []) @
     (if z_string (get_prop input ''database'') = None then [''database''] else []) @
     (if z_string (get_prop input ''username'') = None then [''username''] else []) @
     (if z_string (get_prop input ''password'') = None then [''password''] else [])"

definition ConnectionConfigSchema_parse :: "jsobj \<Rightarrow> error + ConnectionConfig" where
  "ConnectionConfigSchema_parse input =
     (case (z_type (get_prop input ''type''),
            z_string (z_default (JStr ''localhost'') (get_prop input ''host'')),
            z_number_int_positive (get_prop input ''port''),
            z_string (get_prop input ''database''),
            z_string (get_prop input ''username''),
            z_string (get_prop input ''password'')) of
        (Some t, Some h, Some p, Some d, Some u, Some pw) \<Rightarrow>
          Inr \<lparr> db_type = t, host = h, port = p, database = d, username = u, password = pw \<rparr>
      | _ \<Rightarrow> Inl (ZodError (ConnectionConfigSchema_issues input)))"

section \<open>The drivers and the outside world\<close>

text \<open>
  The two drivers (\<open>mysql2/promise\<close> and \<open>pg\<close>) are the environment of the program.  A
  driver call takes the state \<open>'w\<close> of the outside world (network and servers) and
  returns what the promise settles to, with the new state.  Nothing is assumed of the
  functions of a driver.
\<close>

type_synonym Connection = nat
type_synonym PgClient = nat

record conn_options =
  opt_host :: string
  opt_port :: real
  opt_database :: string
  opt_user :: string
  opt_password :: string

datatype field = Field (fname: string)

text \<open>
  The first component of what \<^verbatim>\<open>conn.execute\<close> of \<open>mysql2\<close> resolves to is an array
  of row objects for a statement that returns rows, and a result header (not an array)
  otherwise; the second is then \<open>undefined\<close>.
\<close>

datatype mysql_rows = RowData "jsobj list" | ResultSetHeader

record pg_result =
  pg_rows :: "jsobj list"
  pg_fields :: "field list"

record 'w driver =
  mysql_createConnection :: "conn_options \<Rightarrow> 'w \<Rightarrow> (error + Connection) \<times> 'w"
  mysql_conn_execute ::
    "Connection \<Rightarrow> string \<Rightarrow> jsval list \<Rightarrow> 'w \<Rightarrow> (error + mysql_rows \<times> field list option) \<times> 'w"
  mysql_conn_end :: "Connection \<Rightarrow> 'w \<Rightarrow> (error + unit) \<times> 'w"
  pg_client_connect :: "conn_options \<Rightarrow> 'w \<Rightarrow> (error + PgClient) \<times> 'w"
  pg_client_query :: "PgClient \<Rightarrow> string \<Rightarrow> jsval list \<Rightarrow> 'w \<Rightarrow> (error + pg_result) \<times> 'w"
  pg_client_end :: "PgClient \<Rightarrow> 'w \<Rightarrow> (error + unit) \<times> 'w"

text \<open>
  Every driver call the program issues is recorded, in order, in \<open>trace\<close>; what it
  writes with \<^verbatim>\<open>console.error\<close> is recorded in \<open>console\<close>.
\<close>

datatype event =
    MysqlCreateConnection conn_options
  | MysqlExecute Connection string "jsval list"
  | MysqlEnd Connection
  | PgConnect conn_options
  | PgQuery PgClient string "jsval list"
  | PgEnd PgClient

record 'w sys =
  world :: 'w
  trace :: "event list"
  console :: "(string \<times> error) list"

definition issue :: "event \<Rightarrow> ('w \<Rightarrow> 'r \<times> 'w) \<Rightarrow> 'w sys \<Rightarrow> 'r \<times> 'w sys" where
  "issue ev call s =
     (let (r, w') = call (world s) in (r, s\<lparr> world := w', trace := trace s @ [ev] \<rparr>))"

definition console_error :: "string \<Rightarrow> error \<Rightarrow> 'w sys \<Rightarrow> 'w sys" where
  "console_error msg e s = s\<lparr> console := console s @ [(msg, e)] \<rparr>"

section \<open>database-manager.ts: the MySQL adapter\<close>

record MysqlDatabaseManager =
  my_config :: ConnectionConfig
  my_conn :: "Connection option"

definition MysqlDatabaseManager_new :: "ConnectionConfig \<Rightarrow> error + MysqlDatabaseManager" where
  "MysqlDatabaseManager_new config =
     (if db_type config \<noteq> ''mysql'' then Inl (Error ''Invalid database type'')
      else Inr \<lparr> my_config = config, my_conn = None \<rparr>)"

text \<open>\<^verbatim>\<open>this.config.port || 3306\<close>: the default replaces a falsy port.\<close>

definition port_or :: "real \<Rightarrow> real \<Rightarrow> real" where
  "port_or p d = (if p = 0 then d else p)"

definition mysql_connect ::
  "'w driver \<Rightarrow> MysqlDatabaseManager \<Rightarrow> 'w sys \<Rightarrow> (error + unit) \<times> MysqlDatabaseManager \<times> 'w sys"
where
  "mysql_connect drv this s =
     (let opts = \<lparr> opt_host = host (my_config this),
                    opt_port = port_or (port (my_config this)) 3306,
                    opt_database = database (my_config this),
                    opt_user = username (my_config this),
                    opt_password = password (my_config this) \<rparr>;
          (r, s') = issue (MysqlCreateConnection opts) (mysql_createConnection drv opts) s
      in case r of
           Inl e \<Rightarrow> (Inl e, this, s')
         | Inr c \<Rightarrow> (Inr (), this\<lparr> my_conn := Some c \<rparr>, s'))"

text \<open>\<^verbatim>\<open>query.params || []\<close>: an array is truthy, a missing one is replaced.\<close>

definition params_or_empty :: "jsval list option \<Rightarrow> jsval list" where
  "params_or_empty ps = (case ps of None \<Rightarrow> [] | Some xs \<Rightarrow> xs)"

text \<open>\<^verbatim>\<open>(row) => columns.map((col) => row[col] ?? null)\<close>\<close>

definition format_row :: "string list \<Rightarrow> jsobj \<Rightarrow> jsval list" where
  "format_row cols row = map (\<lambda>col. nullish (get_prop row col) JNull) cols"

record SqlQueryResult =
  res_columns :: "string list"
  res_rows :: "jsval list list"

definition mysql_execute ::
  "'w driver \<Rightarrow> MysqlDatabaseManager \<Rightarrow> SqlQuery \<Rightarrow> 'w sys
     \<Rightarrow> (error + SqlQueryResult) \<times> MysqlDatabaseManager \<times> 'w sys"
where
  "mysql_execute drv this query s =
     (case my_conn this of
        None \<Rightarrow> (Inl (Error ''Not connected''), this, s)
      | Some c \<Rightarrow>
          (let ps = params_or_empty (params query);
               (r, s') = issue (MysqlExecute c (sql query) ps)
                           (mysql_conn_execute drv c (sql query) ps) s
           in case r of
                Inl e \<Rightarrow> (Inl e, this, s')
              | Inr (rows, flds) \<Rightarrow>
                  (case flds of
                     None \<Rightarrow> (Inl (TypeError ''fields.map''), this, s')
                   | Some fs \<Rightarrow>
                       (let cols = map fname fs in
                        case rows of
                          ResultSetHeader \<Rightarrow> (Inl (TypeError ''rows.map''), this, s')
                        | RowData rs \<Rightarrow>
                            (Inr \<lparr> res_columns = cols, res_rows = map (format_row cols) rs \<rparr>,
                             this, s')))))"

definition mysql_disconnect ::
  "'w driver \<Rightarrow> MysqlDatabaseManager \<Rightarrow> 'w sys \<Rightarrow> (error + unit) \<times> MysqlDatabaseManager \<times> 'w sys"
where
  "mysql_disconnect drv this s =
     (case my_conn this of
        None \<Rightarrow> (Inr (), this, s)
      | Some c \<Rightarrow>
          (let (r, s') = issue (MysqlEnd c) (mysql_conn_end drv c) s;
               s'' = (case r of
                        Inl e \<Rightarrow> console_error ''Error disconnecting from MySQL:'' e s'
                      | Inr u \<Rightarrow> s')
           in (Inr (), this\<lparr> my_conn := None \<rparr>, s'')))"

section \<open>Introspection\<close>

text \<open>
  \<^verbatim>\<open>Promise.all(tables.map(async (t) => { columns query; foreign-key query }))\<close>: the
  callbacks start in the order of the tables and each runs up to its first \<^verbatim>\<open>await\<close>, so
  the columns queries of all tables are issued first; a callback whose columns query
  succeeded then issues its foreign-key query.  Both drivers send the queries of one
  connection in the order they were issued.  The promise rejects with the rejection that
  comes first in time, and no query that was issued is taken back.
\<close>

fun issue_each :: "('a \<Rightarrow> 's \<Rightarrow> 'r \<times> 's) \<Rightarrow> 'a list \<Rightarrow> 's \<Rightarrow> 'r list \<times> 's" where
  "issue_each f [] s = ([], s)"
| "issue_each f (x # xs) s =
     (let (r, s1) = f x s; (rs, s2) = issue_each f xs s1 in (r # rs, s2))"

fun first_error :: "(error + 'a) list \<Rightarrow> error option" where
  "first_error [] = None"
| "first_error (Inl e # rs) = Some e"
| "first_error (Inr v # rs) = first_error rs"

fun resolved :: "(error + 'a) list \<Rightarrow> 'a list" where
  "resolved [] = []"
| "resolved (Inl e # rs) = resolved rs"
| "resolved (Inr v # rs) = v # resolved rs"

definition second_step ::
  "(jsval \<Rightarrow> 's \<Rightarrow> (error + ForeignKeySchema list) \<times> 's)
     \<Rightarrow> jsval \<times> (error + ColumnSchema list) \<Rightarrow> 's \<Rightarrow> (error + TableSchema) \<times> 's"
where
  "second_step fks tc s =
     (case snd tc of
        Inl e \<Rightarrow> (Inl e, s)
      | Inr cols \<Rightarrow>
          (let (r, s') = fks (fst tc) s
           in (case r of
                 Inl e \<Rightarrow> Inl e
               | Inr fk \<Rightarrow> Inr \<lparr> tbl_name = fst tc, columns = cols, foreign_keys = fk \<rparr>,
               s')))"

definition promise_all_tables ::
  "(jsval \<Rightarrow> 's \<Rightarrow> (error + ColumnSchema list) \<times> 's)
     \<Rightarrow> (jsval \<Rightarrow> 's \<Rightarrow> (error + ForeignKeySchema list) \<times> 's)
     \<Rightarrow> jsval list \<Rightarrow> 's \<Rightarrow> (error + TableSchema list) \<times> 's"
where
  "promise_all_tables cols fks names s =
     (let (first, s1) = issue_each cols names s;
          (second, s2) = issue_each (second_step fks) (zip names first) s1
      in (case first_error first of
            Some e \<Rightarrow> Inl e
          | None \<Rightarrow> (case first_error second of Some e \<Rightarrow> Inl e | None \<Rightarrow> Inr (resolved second)),
          s2))"

text \<open>\<^verbatim>\<open>rows[0]?.db_name\<close>\<close>

definition first_db_name :: "jsobj list \<Rightarrow> jsval" where
  "first_db_name rs = (case rs of [] \<Rightarrow> JUndefined | r # _ \<Rightarrow> get_prop r ''db_name'')"

text \<open>
  The SQL texts are those of the source; the line breaks and indentation of the template
  literals are written as single spaces.
\<close>

definition mysql_sql_db_name :: string where
  "mysql_sql_db_name = ''SELECT DATABASE() as db_name''"

definition mysql_sql_tables :: string where
  "mysql_sql_tables =
     ''SELECT TABLE_NAME as table_name FROM information_schema.tables WHERE table_schema = ?''"

definition mysql_sql_columns :: string where
  "mysql_sql_columns =
     ''SELECT COLUMN_NAME as column_name, DATA_TYPE as data_type, IS_NULLABLE as is_nullable, COLUMN_DEFAULT as column_default, COLUMN_KEY as column_key FROM information_schema.columns WHERE table_schema = ? AND table_name = ? ORDER BY ordinal_position''"

definition mysql_sql_foreign_keys :: string where
  "mysql_sql_foreign_keys =
     ''SELECT COLUMN_NAME as column_name, REFERENCED_TABLE_NAME as referenced_table_name, REFERENCED_COLUMN_NAME as referenced_column_name, CONSTRAINT_NAME as constraint_name FROM information_schema.key_column_usage WHERE table_schema = ? AND table_name = ? AND referenced_table_name IS NOT NULL''"

definition mysql_column :: "jsobj \<Rightarrow> ColumnSchema" where
  "mysql_column col =
     \<lparr> col_name = get_prop col ''column_name'',
       col_type = get_prop col ''data_type'',
       nullable = (get_prop col ''is_nullable'' = JStr ''YES''),
       default_value = get_prop col ''column_default'',
       primary_key = JBool (get_prop col ''column_key'' = JStr ''PRI'') \<rparr>"

definition mysql_foreign_key :: "jsobj \<Rightarrow> ForeignKeySchema" where
  "mysql_foreign_key fk =
     \<lparr> fk_column = get_prop fk ''column_name'',
       foreign_table = get_prop fk ''referenced_table_name'',
       foreign_column = get_prop fk ''referenced_column_name'',
       constraint_name = get_prop fk ''constraint_name'' \<rparr>"

text \<open>One query of the introspection: the rows it resolves to, which must be an array.\<close>

definition mysql_rows_of ::
  "'w driver \<Rightarrow> Connection \<Rightarrow> string \<Rightarrow> jsval list \<Rightarrow> 'w sys \<Rightarrow> (error + mysql_rows) \<times> 'w sys"
where
  "mysql_rows_of drv c q ps s =
     (let (r, s') = issue (MysqlExecute c q ps) (mysql_conn_execute drv c q ps) s
      in (case r of Inl e \<Rightarrow> Inl e | Inr (rows, flds) \<Rightarrow> Inr rows, s'))"

definition mysql_mapped ::
  "(jsobj \<Rightarrow> 'a) \<Rightarrow> (error + mysql_rows) \<times> 's \<Rightarrow> (error + 'a list) \<times> 's"
where
  "mysql_mapped f rs =
     (case fst rs of
        Inl e \<Rightarrow> Inl e
      | Inr ResultSetHeader \<Rightarrow> Inl (TypeError ''map'')
      | Inr (RowData rows) \<Rightarrow> Inr (map f rows),
      snd rs)"

definition mysql_table_columns ::
  "'w driver \<Rightarrow> Connection \<Rightarrow> ConnectionConfig \<Rightarrow> jsval \<Rightarrow> 'w sys
     \<Rightarrow> (error + ColumnSchema list) \<times> 'w sys"
where
  "mysql_table_columns drv c cfg table_name s =
     mysql_mapped mysql_column
       (mysql_rows_of drv c mysql_sql_columns [JStr (database cfg), table_name] s)"

definition mysql_table_foreign_keys ::
  "'w driver \<Rightarrow> Connection \<Rightarrow> ConnectionConfig \<Rightarrow> jsval \<Rightarrow> 'w sys
     \<Rightarrow> (error + ForeignKeySchema list) \<times> 'w sys"
where
  "mysql_table_foreign_keys drv c cfg table_name s =
     mysql_mapped mysql_foreign_key
       (mysql_rows_of drv c mysql_sql_foreign_keys [JStr (database cfg), table_name] s)"

definition mysql_introspect ::
  "'w driver \<Rightarrow> MysqlDatabaseManager \<Rightarrow> 'w sys
     \<Rightarrow> (error + DatabaseLayout) \<times> MysqlDatabaseManager \<times> 'w sys"
where
  "mysql_introspect drv this s =
     (case my_conn this of
        None \<Rightarrow> (Inl (Error ''Not connected''), this, s)
      | Some c \<Rightarrow>
          (let (r1, s1) = mysql_rows_of drv c mysql_sql_db_name [] s in
           case r1 of
             Inl e \<Rightarrow> (Inl e, this, s1)
           | Inr dbResult \<Rightarrow>
               (let dbName = js_or (case dbResult of
                                      RowData rs \<Rightarrow> first_db_name rs
                                    | ResultSetHeader \<Rightarrow> JUndefined)
                                   (JStr (database (my_config this)));
                    (r2, s2) = mysql_rows_of drv c mysql_sql_tables
                                 [JStr (database (my_config this))] s1
                in case r2 of
                     Inl e \<Rightarrow> (Inl e, this, s2)
                   | Inr ResultSetHeader \<Rightarrow> (Inl (TypeError ''tables.map''), this, s2)
                   | Inr (RowData tbls) \<Rightarrow>
                       (let (r3, s3) =
                              promise_all_tables
                                (mysql_table_columns drv c (my_config this))
                                (mysql_table_foreign_keys drv c (my_config this))
                                (map (\<lambda>row. get_prop row ''table_name'') tbls) s2
                        in case r3 of
                             Inl e \<Rightarrow> (Inl e, this, s3)
                           | Inr tableSchemas \<Rightarrow>
                               (Inr \<lparr> layout_name = dbName, tables = tableSchemas \<rparr>,
                                this, s3)))))"

section \<open>database-manager.ts: the Postgres adapter\<close>

record PostgresqlDatabaseManager =
  pg_config :: ConnectionConfig
  pg_conn :: "PgClient option"

definition PostgresqlDatabaseManager_new ::
  "ConnectionConfig \<Rightarrow> error + PostgresqlDatabaseManager"
where
  "PostgresqlDatabaseManager_new config =
     (if db_type config \<noteq> ''postgres'' then Inl (Error ''Invalid database type'')
      else Inr \<lparr> pg_config = config, pg_conn = None \<rparr>)"

text \<open>
  \<^verbatim>\<open>new PgClient(options)\<close> followed by \<^verbatim>\<open>await client.connect()\<close> is one driver call
  of the model; the handle is stored only when it resolves.
\<close>

definition pg_connect ::
  "'w driver \<Rightarrow> PostgresqlDatabaseManager \<Rightarrow> 'w sys
     \<Rightarrow> (error + unit) \<times> PostgresqlDatabaseManager \<times> 'w sys"
where
  "pg_connect drv this s =
     (let opts = \<lparr> opt_host = host (pg_config this),
                    opt_port = port_or (port (pg_config this)) 5432,
                    opt_database = database (pg_config this),
                    opt_user = username (pg_config this),
                    opt_password = password (pg_config this) \<rparr>;
          (r, s') = issue (PgConnect opts) (pg_client_connect drv opts) s
      in case r of
           Inl e \<Rightarrow> (Inl e, this, s')
         | Inr c \<Rightarrow> (Inr (), this\<lparr> pg_conn := Some c \<rparr>, s'))"

definition pg_execute ::
  "'w driver \<Rightarrow> PostgresqlDatabaseManager \<Rightarrow> SqlQuery \<Rightarrow> 'w sys
     \<Rightarrow> (error + SqlQueryResult) \<times> PostgresqlDatabaseManager \<times> 'w sys"
where
  "pg_execute drv this args s =
     (case pg_conn this of
        None \<Rightarrow> (Inl (Error ''Not connected''), this, s)
      | Some c \<Rightarrow>
          (let ps = params_or_empty (params args);
               (r, s') = issue (PgQuery c (sql args) ps) (pg_client_query drv c (sql args) ps) s
           in case r of
                Inl e \<Rightarrow> (Inl e, this, s')
              | Inr result \<Rightarrow>
                  (let cols = map fname (pg_fields result) in
                   (Inr \<lparr> res_columns = cols, res_rows = map (format_row cols) (pg_rows result) \<rparr>,
                    this, s'))))"

definition pg_disconnect ::
  "'w driver \<Rightarrow> PostgresqlDatabaseManager \<Rightarrow> 'w sys
     \<Rightarrow> (error + unit) \<times> PostgresqlDatabaseManager \<times> 'w sys"
where
  "pg_disconnect drv this s =
     (case pg_conn this of
        None \<Rightarrow> (Inr (), this, s)
      | Some c \<Rightarrow>
          (let (r, s') = issue (PgEnd c) (pg_client_end drv c) s;
               s'' = (case r of
                        Inl e \<Rightarrow> console_error ''Error disconnecting from MySQL:'' e s'
                      | Inr u \<Rightarrow> s')
           in (Inr (), this\<lparr> pg_conn := None \<rparr>, s'')))"

definition pg_sql_db_name :: string where
  "pg_sql_db_name = ''SELECT current_database() as db_name''"

definition pg_sql_tables :: string where
  "pg_sql_tables =
     ''SELECT TABLE_NAME FROM information_schema.tables WHERE table_schema = 'public' AND table_type = 'BASE TABLE'' @ [CHR 0x27]"

definition pg_sql_columns :: string where
  "pg_sql_columns =
     ''SELECT c.column_name, c.data_type, c.is_nullable, c.column_default, CASE WHEN pk.column_name IS NOT NULL THEN true ELSE false END as is_primary_key FROM information_schema.columns c LEFT JOIN ( SELECT ku.column_name FROM information_schema.table_constraints tc JOIN information_schema.key_column_usage ku ON tc.constraint_name = ku.constraint_name AND tc.table_schema = ku.table_schema WHERE tc.constraint_type = 'PRIMARY KEY' AND tc.table_name = $1 AND tc.table_schema = 'public' ) pk ON c.column_name = pk.column_name WHERE c.table_name = $1 AND c.table_schema = 'public' ORDER BY c.ordinal_position''"

definition pg_sql_foreign_keys :: string where
  "pg_sql_foreign_keys =
     ''SELECT kcu.column_name, ccu.table_name AS foreign_table_name, ccu.column_name AS foreign_column_name, tc.constraint_name FROM information_schema.table_constraints AS tc JOIN information_schema.key_column_usage AS kcu ON tc.constraint_name = kcu.constraint_name AND tc.table_schema = kcu.table_schema JOIN information_schema.constraint_column_usage AS ccu ON ccu.constraint_name = tc.constraint_name AND ccu.table_schema = tc.table_schema WHERE tc.constraint_type = 'FOREIGN KEY' AND tc.table_name = $1 AND tc.table_schema = 'public'' @ [CHR 0x27]"

definition pg_column :: "jsobj \<Rightarrow> ColumnSchema" where
  "pg_column col =
     \<lparr> col_name = get_prop col ''column_name'',
       col_type = get_prop col ''data_type'',
       nullable = (get_prop col ''is_nullable'' = JStr ''YES''),
       default_value = get_prop col ''column_default'',
       primary_key = get_prop col ''is_primary_key'' \<rparr>"

definition pg_foreign_key :: "jsobj \<Rightarrow> ForeignKeySchema" where
  "pg_foreign_key fk =
     \<lparr> fk_column = get_prop fk ''column_name'',
       foreign_table = get_prop fk ''foreign_table_name'',
       foreign_column = get_prop fk ''foreign_column_name'',
       constraint_name = get_prop fk ''constraint_name'' \<rparr>"

definition pg_rows_of ::
  "'w driver \<Rightarrow> PgClient \<Rightarrow> string \<Rightarrow> jsval list \<Rightarrow> 'w sys \<Rightarrow> (error + jsobj list) \<times> 'w sys"
where
  "pg_rows_of drv c q ps s =
     (let (r, s') = issue (PgQuery c q ps) (pg_client_query drv c q ps) s
      in (case r of Inl e \<Rightarrow> Inl e | Inr result \<Rightarrow> Inr (pg_rows result), s'))"

definition pg_mapped ::
  "(jsobj \<Rightarrow> 'a) \<Rightarrow> (error + jsobj list) \<times> 's \<Rightarrow> (error + 'a list) \<times> 's"
where
  "pg_mapped f rs = (case fst rs of Inl e \<Rightarrow> Inl e | Inr rows \<Rightarrow> Inr (map f rows), snd rs)"

definition pg_table_columns ::
  "'w driver \<Rightarrow> PgClient \<Rightarrow> jsval \<Rightarrow> 'w sys \<Rightarrow> (error + ColumnSchema list) \<times> 'w sys"
where
  "pg_table_columns drv c TABLE_NAME s =
     pg_mapped pg_column (pg_rows_of drv c pg_sql_columns [TABLE_NAME] s)"

definition pg_table_foreign_keys ::
  "'w driver \<Rightarrow> PgClient \<Rightarrow> jsval \<Rightarrow> 'w sys \<Rightarrow> (error + ForeignKeySchema list) \<times> 'w sys"
where
  "pg_table_foreign_keys drv c TABLE_NAME s =
     pg_mapped pg_foreign_key (pg_rows_of drv c pg_sql_foreign_keys [TABLE_NAME] s)"

definition pg_introspect ::
  "'w driver \<Rightarrow> PostgresqlDatabaseManager \<Rightarrow> 'w sys
     \<Rightarrow> (error + DatabaseLayout) \<times> PostgresqlDatabaseManager \<times> 'w sys"
where
  "pg_introspect drv this s =
     (case pg_conn this of
        None \<Rightarrow> (Inl (Error ''Not connected''), this, s)
      | Some c \<Rightarrow>
          (let (r1, s1) = pg_rows_of drv c pg_sql_db_name [] s in
           case r1 of
             Inl e \<Rightarrow> (Inl e, this, s1)
           | Inr dbRows \<Rightarrow>
               (let dbName = js_or (first_db_name dbRows) (JStr (database (pg_config this)));
                    (r2, s2) = pg_rows_of drv c pg_sql_tables [] s1
                in case r2 of
                     Inl e \<Rightarrow> (Inl e, this, s2)
                   | Inr tbls \<Rightarrow>
                       (let (r3, s3) =
                              promise_all_tables
                                (pg_table_columns drv c)
                                (pg_table_foreign_keys drv c)
                                (map (\<lambda>row. get_prop row ''TABLE_NAME'') tbls) s2
                        in case r3 of
                             Inl e \<Rightarrow> (Inl e, this, s3)
                           | Inr tableSchemas \<Rightarrow>
                               (Inr \<lparr> layout_name = dbName, tables = tableSchemas \<rparr>,
                                this, s3)))))"

section \<open>database-manager.ts: the union of the adapters and the factory\<close>

datatype AnyDatabaseManager =
    Mysql MysqlDatabaseManager
  | Postgresql PostgresqlDatabaseManager

fun connect ::
  "'w driver \<Rightarrow> AnyDatabaseManager \<Rightarrow> 'w sys \<Rightarrow> (error + unit) \<times> AnyDatabaseManager \<times> 'w sys"
where
  "connect drv (Mysql m) s = (let (r, m', s') = mysql_connect drv m s in (r, Mysql m', s'))"
| "connect drv (Postgresql m) s = (let (r, m', s') = pg_connect drv m s in (r, Postgresql m', s'))"

fun disconnect ::
  "'w driver \<Rightarrow> AnyDatabaseManager \<Rightarrow> 'w sys \<Rightarrow> (error + unit) \<times> AnyDatabaseManager \<times> 'w sys"
where
  "disconnect drv (Mysql m) s = (let (r, m', s') = mysql_disconnect drv m s in (r, Mysql m', s'))"
| "disconnect drv (Postgresql m) s =
     (let (r, m', s') = pg_disconnect drv m s in (r, Postgresql m', s'))"

fun execute ::
  "'w driver \<Rightarrow> AnyDatabaseManager \<Rightarrow> SqlQuery \<Rightarrow> 'w sys
     \<Rightarrow> (error + SqlQueryResult) \<times> AnyDatabaseManager \<times> 'w sys"
where
  "execute drv (Mysql m) q s = (let (r, m', s') = mysql_execute drv m q s in (r, Mysql m', s'))"
| "execute drv (Postgresql m) q s =
     (let (r, m', s') = pg_execute drv m q s in (r, Postgresql m', s'))"

fun introspect ::
  "'w driver \<Rightarrow> AnyDatabaseManager \<Rightarrow> 'w sys
     \<Rightarrow> (error + DatabaseLayout) \<times> AnyDatabaseManager \<times> 'w sys"
where
  "introspect drv (Mysql m) s = (let (r, m', s') = mysql_introspect drv m s in (r, Mysql m', s'))"
| "introspect drv (Postgresql m) s =
     (let (r, m', s') = pg_introspect drv m s in (r, Postgresql m', s'))"

fun conn_handle :: "AnyDatabaseManager \<Rightarrow> nat option" where
  "conn_handle (Mysql m) = my_conn m"
| "conn_handle (Postgresql m) = pg_conn m"

definition createManagerFromConfig :: "jsobj \<Rightarrow> error + AnyDatabaseManager" where
  "createManagerFromConfig config =
     (case ConnectionConfigSchema_parse config of
        Inl e \<Rightarrow> Inl e
      | Inr connOptions \<Rightarrow>
          if db_type connOptions = ''mysql''
          then map_sum id Mysql (MysqlDatabaseManager_new connOptions)
          else if db_type connOptions = ''postgres''
          then map_sum id Postgresql (PostgresqlDatabaseManager_new connOptions)
          else Inl (Error (''Unsupported database type: '' @ db_type connOptions)))"

section \<open>index.ts: the connection registry\<close>

text \<open>
  Modelled from the spec: the class \<open>LRUCache\<close> (package \<open>lru-cache\<close>), whose \<open>set\<close> and
  \<open>get\<close> the registry is made of, is not among the source files.  The model follows
  section 4.5 of the specification: a store bounded in capacity and in the age of its
  entries; \<open>put\<close> evicts the least recently used entry when the store is full; \<open>get\<close>
  answers absent for an unknown or expired identifier; every removal runs the disposal
  hook on the removed value.  Where the specification is silent the model does what the
  package documents: an entry is expired when its age is greater than the time-to-live,
  expiry is noticed by the \<open>get\<close> that asks for the entry, a \<open>get\<close> does not restart the
  age, and a \<open>put\<close> on a key that is present replaces and disposes the old value.  A hook
  that throws makes the operation throw.

  The entries are kept most recently used first.  \<open>ent_used\<close>, the time of the last use,
  is read by no operation: it is there to state what least recently used means.  Time is
  a number of milliseconds given to each operation.
\<close>

record 'v cache_entry =
  ent_key :: string
  ent_value :: 'v
  ent_start :: nat
  ent_used :: nat

record 'v LRUCache =
  cache_max :: nat
  cache_ttl :: nat
  entries :: "'v cache_entry list"

definition is_stale :: "'v LRUCache \<Rightarrow> nat \<Rightarrow> 'v cache_entry \<Rightarrow> bool" where
  "is_stale c now e = (ent_start e + cache_ttl c < now)"

definition cache_find :: "'v LRUCache \<Rightarrow> string \<Rightarrow> 'v cache_entry option" where
  "cache_find c k = find (\<lambda>e. ent_key e = k) (entries c)"

definition cache_without :: "string \<Rightarrow> 'v cache_entry list \<Rightarrow> 'v cache_entry list" where
  "cache_without k es = filter (\<lambda>e. ent_key e \<noteq> k) es"

text \<open>
  Modelled from the spec: \<open>get\<close> of the missing class \<open>LRUCache\<close>.  An unknown
  identifier is absent; an expired entry is removed, disposed and absent; an entry that is
  found becomes the most recently used and keeps the start of its age.
\<close>

definition cache_get ::
  "('v \<Rightarrow> 's \<Rightarrow> (error + unit) \<times> 's) \<Rightarrow> 'v LRUCache \<Rightarrow> nat \<Rightarrow> string \<Rightarrow> 's
     \<Rightarrow> (error + 'v option) \<times> 'v LRUCache \<times> 's"
where
  "cache_get dispose c now k s =
     (case cache_find c k of
        None \<Rightarrow> (Inr None, c, s)
      | Some e \<Rightarrow>
          if is_stale c now e
          then (let (r, s') = dispose (ent_value e) s
                in (case r of Inl x \<Rightarrow> Inl x | Inr u \<Rightarrow> Inr None,
                    c\<lparr> entries := cache_without k (entries c) \<rparr>, s'))
          else (Inr (Some (ent_value e)),
                c\<lparr> entries := e\<lparr> ent_used := now \<rparr> # cache_without k (entries c) \<rparr>, s))"

text \<open>
  Modelled from the spec: \<open>set\<close> (the \<open>put\<close> of the specification) of the missing class
  \<open>LRUCache\<close>.  The new entry becomes the most recently used; when the identifier is
  new and the store is full, the least recently used entry is evicted and disposed.
\<close>

definition cache_set ::
  "('v \<Rightarrow> 's \<Rightarrow> (error + unit) \<times> 's) \<Rightarrow> 'v LRUCache \<Rightarrow> nat \<Rightarrow> string \<Rightarrow> 'v \<Rightarrow> 's
     \<Rightarrow> (error + unit) \<times> 'v LRUCache \<times> 's"
where
  "cache_set dispose c now k v s =
     (let new = \<lparr> ent_key = k, ent_value = v, ent_start = now, ent_used = now \<rparr> in
      case cache_find c k of
        Some old \<Rightarrow>
          (let (r, s') = dispose (ent_value old) s
           in (r, c\<lparr> entries := new # cache_without k (entries c) \<rparr>, s'))
      | None \<Rightarrow>
          if length (entries c) < cache_max c
          then (Inr (), c\<lparr> entries := new # entries c \<rparr>, s)
          else (case rev (entries c) of
                  [] \<Rightarrow> (Inr (), c\<lparr> entries := [new] \<rparr>, s)
                | lru # older \<Rightarrow>
                    (let (r, s') = dispose (ent_value lru) s
                     in (r, c\<lparr> entries := new # rev older \<rparr>, s'))))"

text \<open>
  The registry of the source: capacity 100, time-to-live five minutes, and the disposal
  hook \<^verbatim>\<open>(value) => { value.disconnect().catch((error) => console.error(...)) }\<close>.  The
  call of \<open>disconnect\<close> is made at once; the model takes its effects at once as well.
\<close>

definition connCache_dispose ::
  "'w driver \<Rightarrow> AnyDatabaseManager \<Rightarrow> 'w sys \<Rightarrow> (error + unit) \<times> 'w sys"
where
  "connCache_dispose drv value s =
     (let (r, m', s') = disconnect drv value s
      in (Inr (),
          case r of
            Inl e \<Rightarrow> console_error ''Error disconnecting from database:'' e s'
          | Inr u \<Rightarrow> s'))"

definition connCache_empty :: "AnyDatabaseManager LRUCache" where
  "connCache_empty = \<lparr> cache_max = 100, cache_ttl = 1000 * 60 * 5, entries = [] \<rparr>"

record 'w server =
  connCache :: "AnyDatabaseManager LRUCache"
  system :: "'w sys"

section \<open>index.ts: the tool handlers\<close>

text \<open>
  A handler takes the time of the call and, for \<open>connect\<close>, the identifier that \<open>uuidv4\<close>
  draws.  Of what a handler returns, the model keeps the structured content; the text
  rendering is left out.
\<close>

definition connect_tool ::
  "'w driver \<Rightarrow> nat \<Rightarrow> string \<Rightarrow> jsobj \<Rightarrow> 'w server \<Rightarrow> (error + string) \<times> 'w server"
where
  "connect_tool drv now uuid config srv =
     (case createManagerFromConfig config of
        Inl e \<Rightarrow> (Inl e, srv)
      | Inr dbManager \<Rightarrow>
          (let (r, m, s1) = connect drv dbManager (system srv) in
           case r of
             Inl e \<Rightarrow> (Inl e, srv\<lparr> system := s1 \<rparr>)
           | Inr u \<Rightarrow>
               (let (r2, c2, s2) = cache_set (connCache_dispose drv) (connCache srv) now uuid m s1
                in (case r2 of Inl e \<Rightarrow> Inl e | Inr u \<Rightarrow> Inr uuid,
                    \<lparr> connCache = c2, system = s2 \<rparr>))))"

definition no_connection :: "string \<Rightarrow> error" where
  "no_connection connectionId = Error (''No connection found for ID: '' @ connectionId)"

definition inspect_database ::
  "'w driver \<Rightarrow> nat \<Rightarrow> string \<Rightarrow> 'w server \<Rightarrow> (error + DatabaseLayout) \<times> 'w server"
where
  "inspect_database drv now connectionId srv =
     (let (g, c1, s1) = cache_get (connCache_dispose drv) (connCache srv) now connectionId
                          (system srv)
      in case g of
           Inl e \<Rightarrow> (Inl e, \<lparr> connCache = c1, system = s1 \<rparr>)
         | Inr None \<Rightarrow> (Inl (no_connection connectionId), \<lparr> connCache = c1, system = s1 \<rparr>)
         | Inr (Some dbManager) \<Rightarrow>
             (let (r, m, s2) = introspect drv dbManager s1
              in (r, \<lparr> connCache = c1, system = s2 \<rparr>)))"

definition execute_query ::
  "'w driver \<Rightarrow> nat \<Rightarrow> string \<Rightarrow> SqlQuery \<Rightarrow> 'w server \<Rightarrow> (error + SqlQueryResult) \<times> 'w server"
where
  "execute_query drv now connectionId query srv =
     (let (g, c1, s1) = cache_get (connCache_dispose drv) (connCache srv) now connectionId
                          (system srv)
      in case g of
           Inl e \<Rightarrow> (Inl e, \<lparr> connCache = c1, system = s1 \<rparr>)
         | Inr None \<Rightarrow> (Inl (no_connection connectionId), \<lparr> connCache = c1, system = s1 \<rparr>)
         | Inr (Some dbManager) \<Rightarrow>
             (let (r, m, s2) = execute drv dbManager query s1
              in (r, \<lparr> connCache = c1, system = s2 \<rparr>)))"

record ExplainResult =
  ex_columns :: "string list"
  ex_rows :: "jsval list list"
  originalQuery :: string
  withAnalysis :: bool

definition explainQuery :: "ExplainQuery \<Rightarrow> string" where
  "explainQuery query =
     (if analyze query then ''EXPLAIN ANALYZE '' @ ex_sql query else ''EXPLAIN '' @ ex_sql query)"

definition explain_query ::
  "'w driver \<Rightarrow> nat \<Rightarrow> string \<Rightarrow> ExplainQuery \<Rightarrow> 'w server \<Rightarrow> (error + ExplainResult) \<times> 'w server"
where
  "explain_query drv now connectionId query srv =
     (let (g, c1, s1) = cache_get (connCache_dispose drv) (connCache srv) now connectionId
                          (system srv)
      in case g of
           Inl e \<Rightarrow> (Inl e, \<lparr> connCache = c1, system = s1 \<rparr>)
         | Inr None \<Rightarrow> (Inl (no_connection connectionId), \<lparr> connCache = c1, system = s1 \<rparr>)
         | Inr (Some dbManager) \<Rightarrow>
             (let (r, m, s2) = execute drv dbManager
                                 \<lparr> sql = explainQuery query, params = ex_params query \<rparr> s1
              in (case r of
                    Inl e \<Rightarrow> Inl e
                  | Inr result \<Rightarrow>
                      Inr \<lparr> ex_columns = res_columns result, ex_rows = res_rows result,
                            originalQuery = ex_sql query, withAnalysis = analyze query \<rparr>,
                  \<lparr> connCache = c1, system = s2 \<rparr>)))"

text \<open>
  Sequences of registry operations, for stating what holds of every state the registry
  can reach; \<open>op_time\<close> is the time at which an operation is made.
\<close>

datatype 'v cache_op = Put nat string 'v | Get nat string

fun op_time :: "'v cache_op \<Rightarrow> nat" where
  "op_time (Put now k v) = now"
| "op_time (Get now k) = now"

fun puts_key :: "string \<Rightarrow> 'v cache_op \<Rightarrow> bool" where
  "puts_key k (Put now k' v) = (k' = k)"
| "puts_key k (Get now k') = False"

fun cache_step ::
  "('v \<Rightarrow> 's \<Rightarrow> (error + unit) \<times> 's) \<Rightarrow> 'v LRUCache \<times> 's \<Rightarrow> 'v cache_op \<Rightarrow> 'v LRUCache \<times> 's"
where
  "cache_step dispose cs (Put now k v) = snd (cache_set dispose (fst cs) now k v (snd cs))"
| "cache_step dispose cs (Get now k) = snd (cache_get dispose (fst cs) now k (snd cs))"

definition cache_run ::
  "('v \<Rightarrow> 's \<Rightarrow> (error + unit) \<times> 's) \<Rightarrow> 'v cache_op list \<Rightarrow> 'v LRUCache \<times> 's \<Rightarrow> 'v LRUCache \<times> 's"
where
  "cache_run dispose ops cs = foldl (cache_step dispose) cs ops"

text \<open>The entries are in the order of their last use, the most recent first.\<close>

definition recency_ordered :: "'v LRUCache \<Rightarrow> bool" where
  "recency_ordered c = sorted (rev (map ent_used (entries c)))"

definition used_by :: "nat \<Rightarrow> 'v LRUCache \<Rightarrow> bool" where
  "used_by now c = (\<forall>e \<in> set (entries c). ent_used e \<le> now)"

text \<open>
  For stating properties of both adapters at once: the close call an adapter makes on its
  handle, the events of closing it, and the rows the driver resolves with for a query.
\<close>

fun driver_end :: "'w driver \<Rightarrow> AnyDatabaseManager \<Rightarrow> nat \<Rightarrow> 'w \<Rightarrow> (error + unit) \<times> 'w" where
  "driver_end drv (Mysql m) c = mysql_conn_end drv c"
| "driver_end drv (Postgresql m) c = pg_client_end drv c"

fun close_events :: "AnyDatabaseManager \<Rightarrow> event list" where
  "close_events (Mysql m) = (case my_conn m of None \<Rightarrow> [] | Some c \<Rightarrow> [MysqlEnd c])"
| "close_events (Postgresql m) = (case pg_conn m of None \<Rightarrow> [] | Some c \<Rightarrow> [PgEnd c])"



fun query_event :: "AnyDatabaseManager \<Rightarrow> nat \<Rightarrow> string \<Rightarrow> jsval list \<Rightarrow> event" where
  "query_event (Mysql m) c q ps = MysqlExecute c q ps"
| "query_event (Postgresql m) c q ps = PgQuery c q ps"

section \<open>The engines, for the introspection scenario\<close>

text \<open>
  What a live engine answers is not part of the repository.  To run \<open>introspect\<close> on the
  scenario of the specification, the metadata views the adapters read are modelled as
  lists of rows, and each statement the adapters send is given its meaning over these
  lists.  The label of an output column is the alias written in the statement; a column
  selected without an alias has, in PostgreSQL, the name of the column, and PostgreSQL
  folds an identifier that is not quoted to lower case.  A parameter that is \<open>undefined\<close>
  or \<open>null\<close> is sent as the SQL null, to which no value is equal.
\<close>

record is_table =
  t_schema :: string
  t_name :: string
  t_type :: string

record is_column =
  c_schema :: string
  c_table :: string
  c_name :: string
  c_position :: nat
  c_data_type :: string
  c_is_nullable :: string
  c_default :: "string option"
  c_key :: string

record is_constraint =
  tc_name :: string
  tc_schema :: string
  tc_table :: string
  tc_type :: string

record is_key_usage =
  ku_constraint :: string
  ku_schema :: string
  ku_table :: string
  ku_column :: string
  ku_ref_table :: "string option"
  ku_ref_column :: "string option"

record is_column_usage =
  cu_constraint :: string
  cu_schema :: string
  cu_table :: string
  cu_column :: string

record catalog =
  cat_database :: string
  cat_tables :: "is_table list"
  cat_columns :: "is_column list"
  cat_constraints :: "is_constraint list"
  cat_key_usage :: "is_key_usage list"
  cat_column_usage :: "is_column_usage list"

fun sql_eq :: "string \<Rightarrow> jsval \<Rightarrow> bool" where
  "sql_eq x (JStr s) = (x = s)"
| "sql_eq x v = False"

definition sql_text :: "string option \<Rightarrow> jsval" where
  "sql_text x = (case x of None \<Rightarrow> JNull | Some s \<Rightarrow> JStr s)"

definition mysql_answer :: "catalog \<Rightarrow> string \<Rightarrow> jsval list \<Rightarrow> error + mysql_rows \<times> field list option" where
  "mysql_answer cat q ps =
     (if q = mysql_sql_db_name then
        Inr (RowData [[''db_name'' \<mapsto> JStr (cat_database cat)]], Some [Field ''db_name''])
      else if q = mysql_sql_tables then
        Inr (RowData
               [[''table_name'' \<mapsto> JStr (t_name t)].
                  t \<leftarrow> cat_tables cat, sql_eq (t_schema t) (ps ! 0)],
             Some [Field ''table_name''])
      else if q = mysql_sql_columns then
        Inr (RowData
               [[''column_name'' \<mapsto> JStr (c_name c), ''data_type'' \<mapsto> JStr (c_data_type c),
                 ''is_nullable'' \<mapsto> JStr (c_is_nullable c),
                 ''column_default'' \<mapsto> sql_text (c_default c),
                 ''column_key'' \<mapsto> JStr (c_key c)].
                  c \<leftarrow> sort_key c_position (cat_columns cat),
                  sql_eq (c_schema c) (ps ! 0) \<and> sql_eq (c_table c) (ps ! 1)],
             Some [Field ''column_name'', Field ''data_type'', Field ''is_nullable'',
                   Field ''column_default'', Field ''column_key''])
      else if q = mysql_sql_foreign_keys then
        Inr (RowData
               [[''column_name'' \<mapsto> JStr (ku_column u),
                 ''referenced_table_name'' \<mapsto> sql_text (ku_ref_table u),
                 ''referenced_column_name'' \<mapsto> sql_text (ku_ref_column u),
                 ''constraint_name'' \<mapsto> JStr (ku_constraint u)].
                  u \<leftarrow> cat_key_usage cat,
                  sql_eq (ku_schema u) (ps ! 0) \<and> sql_eq (ku_table u) (ps ! 1) \<and>
                  ku_ref_table u \<noteq> None],
             Some [Field ''column_name'', Field ''referenced_table_name'',
                   Field ''referenced_column_name'', Field ''constraint_name''])
      else Inl (Error ''statement not modelled''))"

text \<open>
  The primary-key columns of a table, as the inner query of the columns statement selects
  them, and the left join of a column with them: one row for each match, and one row with
  the flag false when there is none.
\<close>

definition pg_primary_key_columns :: "catalog \<Rightarrow> jsval \<Rightarrow> string list" where
  "pg_primary_key_columns cat p =
     [ku_column ku.
        tc \<leftarrow> cat_constraints cat, ku \<leftarrow> cat_key_usage cat,
        tc_name tc = ku_constraint ku \<and> tc_schema tc = ku_schema ku \<and>
        tc_type tc = ''PRIMARY KEY'' \<and> sql_eq (tc_table tc) p \<and> tc_schema tc = ''public'']"

definition pg_column_row :: "is_column \<Rightarrow> bool \<Rightarrow> jsobj" where
  "pg_column_row c pk =
     [''column_name'' \<mapsto> JStr (c_name c), ''data_type'' \<mapsto> JStr (c_data_type c),
      ''is_nullable'' \<mapsto> JStr (c_is_nullable c), ''column_default'' \<mapsto> sql_text (c_default c),
      ''is_primary_key'' \<mapsto> JBool pk]"

definition pg_left_join :: "string list \<Rightarrow> is_column \<Rightarrow> jsobj list" where
  "pg_left_join pk c =
     (case filter (\<lambda>n. c_name c = n) pk of
        [] \<Rightarrow> [pg_column_row c False]
      | m # ms \<Rightarrow> map (\<lambda>n. pg_column_row c True) (m # ms))"

definition pg_answer :: "catalog \<Rightarrow> string \<Rightarrow> jsval list \<Rightarrow> error + pg_result" where
  "pg_answer cat q ps =
     (if q = pg_sql_db_name then
        Inr \<lparr> pg_rows = [[''db_name'' \<mapsto> JStr (cat_database cat)]],
              pg_fields = [Field ''db_name''] \<rparr>
      else if q = pg_sql_tables then
        Inr \<lparr> pg_rows =
                [[''table_name'' \<mapsto> JStr (t_name t)].
                   t \<leftarrow> cat_tables cat, t_schema t = ''public'' \<and> t_type t = ''BASE TABLE''],
              pg_fields = [Field ''table_name''] \<rparr>
      else if q = pg_sql_columns then
        Inr \<lparr> pg_rows =
                concat
                  [pg_left_join (pg_primary_key_columns cat (ps ! 0)) c.
                     c \<leftarrow> sort_key c_position (cat_columns cat),
                     sql_eq (c_table c) (ps ! 0) \<and> c_schema c = ''public''],
              pg_fields = [Field ''column_name'', Field ''data_type'', Field ''is_nullable'',
                           Field ''column_default'', Field ''is_primary_key''] \<rparr>
      else if q = pg_sql_foreign_keys then
        Inr \<lparr> pg_rows =
                [[''column_name'' \<mapsto> JStr (ku_column kcu),
                  ''foreign_table_name'' \<mapsto> JStr (cu_table ccu),
                  ''foreign_column_name'' \<mapsto> JStr (cu_column ccu),
                  ''constraint_name'' \<mapsto> JStr (tc_name tc)].
                   tc \<leftarrow> cat_constraints cat, kcu \<leftarrow> cat_key_usage cat,
                   tc_name tc = ku_constraint kcu \<and> tc_schema tc = ku_schema kcu,
                   ccu \<leftarrow> cat_column_usage cat,
                   cu_constraint ccu = tc_name tc \<and> cu_schema ccu = tc_schema tc \<and>
                   tc_type tc = ''FOREIGN KEY'' \<and> sql_eq (tc_table tc) (ps ! 0) \<and>
                   tc_schema tc = ''public''],
              pg_fields = [Field ''column_name'', Field ''foreign_table_name'',
                           Field ''foreign_column_name'', Field ''constraint_name''] \<rparr>
      else Inl (Error ''statement not modelled''))"

text \<open>A driver connected to a MySQL server, and one connected to a PostgreSQL server.\<close>

definition mysql_live :: "catalog \<Rightarrow> nat driver" where
  "mysql_live cat =
     \<lparr> mysql_createConnection = (\<lambda>opts w. (Inr 1, Suc w)),
       mysql_conn_execute = (\<lambda>c q ps w. (mysql_answer cat q ps, Suc w)),
       mysql_conn_end = (\<lambda>c w. (Inr (), Suc w)),
       pg_client_connect = (\<lambda>opts w. (Inl (Error ''ECONNREFUSED''), Suc w)),
       pg_client_query = (\<lambda>c q ps w. (Inl (Error ''ECONNREFUSED''), Suc w)),
       pg_client_end = (\<lambda>c w. (Inl (Error ''ECONNREFUSED''), Suc w)) \<rparr>"

definition pg_live :: "catalog \<Rightarrow> nat driver" where
  "pg_live cat =
     \<lparr> mysql_createConnection = (\<lambda>opts w. (Inl (Error ''ECONNREFUSED''), Suc w)),
       mysql_conn_execute = (\<lambda>c q ps w. (Inl (Error ''ECONNREFUSED''), Suc w)),
       mysql_conn_end = (\<lambda>c w. (Inl (Error ''ECONNREFUSED''), Suc w)),
       pg_client_connect = (\<lambda>opts w. (Inr 2, Suc w)),
       pg_client_query = (\<lambda>c q ps w. (pg_answer cat q ps, Suc w)),
       pg_client_end = (\<lambda>c w. (Inr (), Suc w)) \<rparr>"

text \<open>
  The scenario: \<open>customers(id PK)\<close> and \<open>orders(id PK, customer_id FK -> customers.id)\<close>
  in the database \<open>shop\<close>, as MySQL and as PostgreSQL (schema \<open>public\<close>) describe it.
\<close>

definition shop_mysql :: catalog where
  "shop_mysql =
     \<lparr> cat_database = ''shop'',
       cat_tables =
         [\<lparr> t_schema = ''shop'', t_name = ''customers'', t_type = ''BASE TABLE'' \<rparr>,
          \<lparr> t_schema = ''shop'', t_name = ''orders'', t_type = ''BASE TABLE'' \<rparr>],
       cat_columns =
         [\<lparr> c_schema = ''shop'', c_table = ''customers'', c_name = ''id'', c_position = 1,
            c_data_type = ''int'', c_is_nullable = ''NO'', c_default = None, c_key = ''PRI'' \<rparr>,
          \<lparr> c_schema = ''shop'', c_table = ''orders'', c_name = ''id'', c_position = 1,
            c_data_type = ''int'', c_is_nullable = ''NO'', c_default = None, c_key = ''PRI'' \<rparr>,
          \<lparr> c_schema = ''shop'', c_table = ''orders'', c_name = ''customer_id'', c_position = 2,
            c_data_type = ''int'', c_is_nullable = ''YES'', c_default = None, c_key = ''MUL'' \<rparr>],
       cat_constraints =
         [\<lparr> tc_name = ''PRIMARY'', tc_schema = ''shop'', tc_table = ''customers'',
            tc_type = ''PRIMARY KEY'' \<rparr>,
          \<lparr> tc_name = ''PRIMARY'', tc_schema = ''shop'', tc_table = ''orders'',
            tc_type = ''PRIMARY KEY'' \<rparr>,
          \<lparr> tc_name = ''orders_ibfk_1'', tc_schema = ''shop'', tc_table = ''orders'',
            tc_type = ''FOREIGN KEY'' \<rparr>],
       cat_key_usage =
         [\<lparr> ku_constraint = ''PRIMARY'', ku_schema = ''shop'', ku_table = ''customers'',
            ku_column = ''id'', ku_ref_table = None, ku_ref_column = None \<rparr>,
          \<lparr> ku_constraint = ''PRIMARY'', ku_schema = ''shop'', ku_table = ''orders'',
            ku_column = ''id'', ku_ref_table = None, ku_ref_column = None \<rparr>,
          \<lparr> ku_constraint = ''orders_ibfk_1'', ku_schema = ''shop'', ku_table = ''orders'',
            ku_column = ''customer_id'', ku_ref_table = Some ''customers'',
            ku_ref_column = Some ''id'' \<rparr>],
       cat_column_usage = [] \<rparr>"

definition shop_pg :: catalog where
  "shop_pg =
     \<lparr> cat_database = ''shop'',
       cat_tables =
         [\<lparr> t_schema = ''public'', t_name = ''customers'', t_type = ''BASE TABLE'' \<rparr>,
          \<lparr> t_schema = ''public'', t_name = ''orders'', t_type = ''BASE TABLE'' \<rparr>],
       cat_columns =
         [\<lparr> c_schema = ''public'', c_table = ''customers'', c_name = ''id'', c_position = 1,
            c_data_type = ''integer'', c_is_nullable = ''NO'', c_default = None, c_key = [] \<rparr>,
          \<lparr> c_schema = ''public'', c_table = ''orders'', c_name = ''id'', c_position = 1,
            c_data_type = ''integer'', c_is_nullable = ''NO'', c_default = None, c_key = [] \<rparr>,
          \<lparr> c_schema = ''public'', c_table = ''orders'', c_name = ''customer_id'',
            c_position = 2, c_data_type = ''integer'', c_is_nullable = ''YES'',
            c_default = None, c_key = [] \<rparr>],
       cat_constraints =
         [\<lparr> tc_name = ''customers_pkey'', tc_schema = ''public'', tc_table = ''customers'',
            tc_type = ''PRIMARY KEY'' \<rparr>,
          \<lparr> tc_name = ''orders_pkey'', tc_schema = ''public'', tc_table = ''orders'',
            tc_type = ''PRIMARY KEY'' \<rparr>,
          \<lparr> tc_name = ''orders_customer_id_fkey'', tc_schema = ''public'', tc_table = ''orders'',
            tc_type = ''FOREIGN KEY'' \<rparr>],
       cat_key_usage =
         [\<lparr> ku_constraint = ''customers_pkey'', ku_schema = ''public'', ku_table = ''customers'',
            ku_column = ''id'', ku_ref_table = None, ku_ref_column = None \<rparr>,
          \<lparr> ku_constraint = ''orders_pkey'', ku_schema = ''public'', ku_table = ''orders'',
            ku_column = ''id'', ku_ref_table = None, ku_ref_column = None \<rparr>,
          \<lparr> ku_constraint = ''orders_customer_id_fkey'', ku_schema = ''public'',
            ku_table = ''orders'', ku_column = ''customer_id'', ku_ref_table = None,
            ku_ref_column = None \<rparr>],
       cat_column_usage =
         [\<lparr> cu_constraint = ''customers_pkey'', cu_schema = ''public'', cu_table = ''customers'',
            cu_column = ''id'' \<rparr>,
          \<lparr> cu_constraint = ''orders_pkey'', cu_schema = ''public'', cu_table = ''orders'',
            cu_column = ''id'' \<rparr>,
          \<lparr> cu_constraint = ''orders_customer_id_fkey'', cu_schema = ''public'',
            cu_table = ''customers'', cu_column = ''id'' \<rparr>] \<rparr>"

text \<open>The schema of the table \<open>orders\<close> that the specification expects.\<close>

definition orders_schema :: "string \<Rightarrow> string \<Rightarrow> TableSchema" where
  "orders_schema ty fk =
     \<lparr> tbl_name = JStr ''orders'',
       columns =
         [\<lparr> col_name = JStr ''id'', col_type = JStr ty, nullable = False,
            default_value = JNull, primary_key = JBool True \<rparr>,
          \<lparr> col_name = JStr ''customer_id'', col_type = JStr ty, nullable = True,
            default_value = JNull, primary_key = JBool False \<rparr>],
       foreign_keys =
         [\<lparr> fk_column = JStr ''customer_id'', foreign_table = JStr ''customers'',
            foreign_column = JStr ''id'', constraint_name = JStr fk \<rparr>] \<rparr>"

definition customers_schema :: "string \<Rightarrow> TableSchema" where
  "customers_schema ty =
     \<lparr> tbl_name = JStr ''customers'',
       columns =
         [\<lparr> col_name = JStr ''id'', col_type = JStr ty, nullable = False,
            default_value = JNull, primary_key = JBool True \<rparr>],
       foreign_keys = [] \<rparr>"

definition lost_table :: TableSchema where
  "lost_table = \<lparr> tbl_name = JUndefined, columns = [], foreign_keys = [] \<rparr>"

section \<open>A driver to run the adapters on\<close>

text \<open>
  A small concrete driver for the examples: every connection attempt succeeds with handle
  \<open>1\<close>, every statement returns one row with the single key \<open>a\<close> under the two fields
  \<open>a\<close> and \<open>b\<close>, and closing a connection fails.  The world is the number of calls made.
\<close>

definition demo_row :: jsobj where
  "demo_row = [''a'' \<mapsto> JNum 1]"

definition demo_driver :: "nat driver" where
  "demo_driver =
     \<lparr> mysql_createConnection = (\<lambda>opts w. (Inr 1, Suc w)),
       mysql_conn_execute =
         (\<lambda>c q ps w. (Inr (RowData [demo_row], Some [Field ''a'', Field ''b'']), Suc w)),
       mysql_conn_end = (\<lambda>c w. (Inl (Error ''closed''), Suc w)),
       pg_client_connect = (\<lambda>opts w. (Inr 1, Suc w)),
       pg_client_query =
         (\<lambda>c q ps w. (Inr \<lparr> pg_rows = [demo_row], pg_fields = [Field ''a'', Field ''b''] \<rparr>,
                        Suc w)),
       pg_client_end = (\<lambda>c w. (Inl (Error ''closed''), Suc w)) \<rparr>"

definition demo_config :: "string \<Rightarrow> ConnectionConfig" where
  "demo_config t =
     \<lparr> db_type = t, host = ''localhost'', port = 3306, database = ''shop'',
       username = ''u'', password = [] \<rparr>"

definition sys0 :: "nat sys" where
  "sys0 = \<lparr> world = 0, trace = [], console = [] \<rparr>"

text \<open>Configurations for the examples.\<close>

definition cfg_empty_strings :: jsobj where
  "cfg_empty_strings =
     [''type'' \<mapsto> JStr ''mysql'', ''host'' \<mapsto> JStr [], ''port'' \<mapsto> JNum 3306,
      ''database'' \<mapsto> JStr [], ''username'' \<mapsto> JStr [], ''password'' \<mapsto> JStr []]"

definition cfg_fraction_port :: jsobj where
  "cfg_fraction_port =
     [''type'' \<mapsto> JStr ''mysql'', ''port'' \<mapsto> JNum (5 / 2), ''database'' \<mapsto> JStr ''shop'',
      ''username'' \<mapsto> JStr ''u'', ''password'' \<mapsto> JStr ''p'']"

definition cfg_oracle :: jsobj where
  "cfg_oracle =
     [''type'' \<mapsto> JStr ''oracle'', ''port'' \<mapsto> JNum 1521, ''database'' \<mapsto> JStr ''shop'',
      ''username'' \<mapsto> JStr ''u'', ''password'' \<mapsto> JStr ''p'']"

definition cfg_postgres :: jsobj where
  "cfg_postgres =
     [''type'' \<mapsto> JStr ''postgres'', ''port'' \<mapsto> JNum 3306, ''database'' \<mapsto> JStr ''shop'',
      ''username'' \<mapsto> JStr ''u'', ''password'' \<mapsto> JStr []]"

text \<open>A server with two live sessions, one for each engine.\<close>

definition demo_mysql :: AnyDatabaseManager where
  "demo_mysql = Mysql \<lparr> my_config = demo_config ''mysql'', my_conn = Some 1 \<rparr>"

definition demo_postgres :: AnyDatabaseManager where
  "demo_postgres = Postgresql \<lparr> pg_config = demo_config ''postgres'', pg_conn = Some 2 \<rparr>"

definition demo_server :: "nat server" where
  "demo_server =
     \<lparr> connCache = connCache_empty
         \<lparr> entries :=
             [\<lparr> ent_key = ''s2'', ent_value = demo_postgres, ent_start = 20, ent_used = 20 \<rparr>,
              \<lparr> ent_key = ''s1'', ent_value = demo_mysql, ent_start = 10, ent_used = 10 \<rparr>] \<rparr>,
       system = sys0 \<rparr>"


definition select_with_param :: ExplainQuery where
  "select_with_param = \<lparr> ex_sql = ''SELECT ?'', ex_params = Some [JNum 5], analyze = False \<rparr>"

definition select_1 :: "bool \<Rightarrow> ExplainQuery" where
  "select_1 a = \<lparr> ex_sql = ''SELECT 1'', ex_params = None, analyze = a \<rparr>"

text \<open>
  A full registry for the examples: a hundred sessions, the one used longest ago, a MySQL
  adapter, at the end.
\<close>

definition full_entry :: "nat \<Rightarrow> AnyDatabaseManager cache_entry" where
  "full_entry i =
     \<lparr> ent_key = replicate (Suc i) CHR ''k'',
       ent_value = (if i = 99 then demo_mysql else demo_postgres),
       ent_start = 99 - i, ent_used = 99 - i \<rparr>"

definition demo_full :: "AnyDatabaseManager LRUCache" where
  "demo_full = connCache_empty\<lparr> entries := map full_entry [0..<Suc 99] \<rparr>"

section \<open>Properties of the adapters\<close>

lemma issue_trace: "trace (snd (issue ev call s)) = trace s @ [ev]"
  by (simp add: issue_def split: prod.splits)

lemma issue_console: "console (snd (issue ev call s)) = console s"
  by (simp add: issue_def split: prod.splits)

lemma factory_conn: "createManagerFromConfig cfg = Inr m \<Longrightarrow> conn_handle m = None"
  by (auto simp: createManagerFromConfig_def MysqlDatabaseManager_new_def
      PostgresqlDatabaseManager_new_def split: sum.splits if_splits)

text \<open>
  Claim C7.  On an adapter whose connection handle is null, \<open>execute\<close> and \<open>introspect\<close>
  fail with the error \<open>Not connected\<close>, for the MySQL and for the Postgres adapter, and
  leave the adapter and the system as they were: the trace of driver calls is the one
  before the call, so no driver call was issued.  An adapter the factory has just built
  has a null handle.
\<close>

theorem C7_not_connected_guard:
  "(conn_handle m = None \<longrightarrow>
      execute drv m q s = (Inl (Error ''Not connected''), m, s) \<and>
      introspect drv m s = (Inl (Error ''Not connected''), m, s)) \<and>
   (createManagerFromConfig cfg = Inr m \<longrightarrow> conn_handle m = None)"
proof (intro conjI impI)
  assume h: "conn_handle m = None"
  show "execute drv m q s = (Inl (Error ''Not connected''), m, s)"
    using h by (cases m) (simp_all add: mysql_execute_def pg_execute_def)
  show "introspect drv m s = (Inl (Error ''Not connected''), m, s)"
    using h by (cases m) (simp_all add: mysql_introspect_def pg_introspect_def)
next
  assume "createManagerFromConfig cfg = Inr m"
  then show "conn_handle m = None" by (rule factory_conn)
qed

theorem C7_not_connected_guard_witness:
  "conn_handle (Postgresql \<lparr> pg_config = demo_config ''postgres'', pg_conn = None \<rparr>) = None \<and>
   execute demo_driver (Postgresql \<lparr> pg_config = demo_config ''postgres'', pg_conn = None \<rparr>)
     \<lparr> sql = ''SELECT 1'', params = None \<rparr> sys0 =
     (Inl (Error ''Not connected''),
      Postgresql \<lparr> pg_config = demo_config ''postgres'', pg_conn = None \<rparr>, sys0) \<and>
   introspect demo_driver (Postgresql \<lparr> pg_config = demo_config ''postgres'', pg_conn = None \<rparr>)
     sys0 =
     (Inl (Error ''Not connected''),
      Postgresql \<lparr> pg_config = demo_config ''postgres'', pg_conn = None \<rparr>, sys0) \<and>
   createManagerFromConfig
     [''type'' \<mapsto> JStr ''postgres'', ''port'' \<mapsto> JNum 3306, ''database'' \<mapsto> JStr ''shop'',
      ''username'' \<mapsto> JStr ''u'', ''password'' \<mapsto> JStr []] =
     Inr (Postgresql \<lparr> pg_config = demo_config ''postgres'', pg_conn = None \<rparr>)"
proof -
  let ?m = "Postgresql \<lparr> pg_config = demo_config ''postgres'', pg_conn = None \<rparr>"
  have h: "conn_handle ?m = None" by simp
  have f: "createManagerFromConfig
     [''type'' \<mapsto> JStr ''postgres'', ''port'' \<mapsto> JNum 3306, ''database'' \<mapsto> JStr ''shop'',
      ''username'' \<mapsto> JStr ''u'', ''password'' \<mapsto> JStr []] = Inr ?m"
    by (simp add: createManagerFromConfig_def ConnectionConfigSchema_parse_def get_prop_def inherited_def object_prototype_keys_def
        z_type_def z_string_def z_default_def z_number_int_positive_def
        PostgresqlDatabaseManager_new_def demo_config_def)
  show ?thesis
    using h f
      C7_not_connected_guard [of ?m demo_driver "\<lparr> sql = ''SELECT 1'', params = None \<rparr>" sys0]
    by simp
qed

lemma disconnect_result:
  assumes "disconnect drv m s = (r, m', s')"
  shows "r = Inr () \<and> conn_handle m' = None \<and> trace s' = trace s @ close_events m \<and>
         (\<forall>c e. conn_handle m = Some c \<and> fst (driver_end drv m c (world s)) = Inl e \<longrightarrow>
            console s' = console s @ [(''Error disconnecting from MySQL:'', e)]) \<and>
         disconnect drv m' s' = (Inr (), m', s')"
  using assms
  by (cases m)
     (auto simp: mysql_disconnect_def pg_disconnect_def issue_def console_error_def Let_def
           split: option.splits prod.splits sum.splits)

text \<open>
  Claim C6.  For either adapter, \<open>disconnect\<close> returns normally whatever the driver's close
  does; the handle is null afterwards; the adapter closes its handle once if it had one
  and not at all if it had none; an error of the close is written to the console; and a
  second \<open>disconnect\<close> right after the first returns normally and changes nothing, so it
  issues no driver call.
\<close>

theorem C6_disconnect_idempotent:
  assumes "disconnect drv m s = (r, m', s')"
  shows "r = Inr () \<and> conn_handle m' = None \<and> trace s' = trace s @ close_events m \<and>
         (\<forall>c e. conn_handle m = Some c \<and> fst (driver_end drv m c (world s)) = Inl e \<longrightarrow>
            console s' = console s @ [(''Error disconnecting from MySQL:'', e)]) \<and>
         disconnect drv m' s' = (Inr (), m', s')"
  using assms by (rule disconnect_result)

theorem C6_disconnect_idempotent_witness:
  "disconnect demo_driver (Mysql \<lparr> my_config = demo_config ''mysql'', my_conn = Some 7 \<rparr>) sys0 =
     (Inr (), Mysql \<lparr> my_config = demo_config ''mysql'', my_conn = None \<rparr>,
      \<lparr> world = 1, trace = [MysqlEnd 7],
        console = [(''Error disconnecting from MySQL:'', Error ''closed'')] \<rparr>) \<and>
   disconnect demo_driver (Mysql \<lparr> my_config = demo_config ''mysql'', my_conn = None \<rparr>)
     \<lparr> world = 1, trace = [MysqlEnd 7],
       console = [(''Error disconnecting from MySQL:'', Error ''closed'')] \<rparr> =
     (Inr (), Mysql \<lparr> my_config = demo_config ''mysql'', my_conn = None \<rparr>,
      \<lparr> world = 1, trace = [MysqlEnd 7],
        console = [(''Error disconnecting from MySQL:'', Error ''closed'')] \<rparr>)"
proof -
  have d: "disconnect demo_driver (Mysql \<lparr> my_config = demo_config ''mysql'', my_conn = Some 7 \<rparr>)
             sys0 =
           (Inr (), Mysql \<lparr> my_config = demo_config ''mysql'', my_conn = None \<rparr>,
            \<lparr> world = 1, trace = [MysqlEnd 7],
              console = [(''Error disconnecting from MySQL:'', Error ''closed'')] \<rparr>)"
    by (simp add: mysql_disconnect_def issue_def demo_driver_def sys0_def console_error_def)
  from C6_disconnect_idempotent [OF d] d show ?thesis by simp
qed








section \<open>Properties of the factory\<close>

lemma issues_Nil:
  "ConnectionConfigSchema_issues cfg = [] \<longleftrightarrow>
     z_type (get_prop cfg ''type'') \<noteq> None \<and>
     z_string (z_default (JStr ''localhost'') (get_prop cfg ''host'')) \<noteq> None \<and>
     z_number_int_positive (get_prop cfg ''port'') \<noteq> None \<and>
     z_string (get_prop cfg ''database'') \<noteq> None \<and>
     z_string (get_prop cfg ''username'') \<noteq> None \<and>
     z_string (get_prop cfg ''password'') \<noteq> None"
  by (simp add: ConnectionConfigSchema_issues_def)

lemma parse_fail:
  assumes "ConnectionConfigSchema_issues cfg \<noteq> []"
  shows "ConnectionConfigSchema_parse cfg = Inl (ZodError (ConnectionConfigSchema_issues cfg))"
proof -
  from assms have "z_type (get_prop cfg ''type'') = None \<or>
     z_string (z_default (JStr ''localhost'') (get_prop cfg ''host'')) = None \<or>
     z_number_int_positive (get_prop cfg ''port'') = None \<or>
     z_string (get_prop cfg ''database'') = None \<or>
     z_string (get_prop cfg ''username'') = None \<or>
     z_string (get_prop cfg ''password'') = None"
    by (simp add: issues_Nil)
  then show ?thesis
    unfolding ConnectionConfigSchema_parse_def by (auto split: option.splits)
qed

lemma parse_error:
  "ConnectionConfigSchema_parse cfg = Inl e \<Longrightarrow> e = ZodError (ConnectionConfigSchema_issues cfg)"
  unfolding ConnectionConfigSchema_parse_def by (auto split: option.splits)

lemma parse_type:
  "ConnectionConfigSchema_parse cfg = Inr c \<Longrightarrow> db_type c = ''mysql'' \<or> db_type c = ''postgres''"
  unfolding ConnectionConfigSchema_parse_def by (auto simp: z_type_def split: option.splits if_splits)

lemma parse_accepts:
  assumes "get_prop cfg ''type'' = JStr ''mysql'' \<or> get_prop cfg ''type'' = JStr ''postgres''"
    and "get_prop cfg ''host'' = JUndefined \<or> (\<exists>h. get_prop cfg ''host'' = JStr h)"
    and "\<exists>n. get_prop cfg ''port'' = JNum n \<and> 0 < n \<and> of_int \<lfloor>n\<rfloor> = n"
    and "\<exists>d. get_prop cfg ''database'' = JStr d"
    and "\<exists>u. get_prop cfg ''username'' = JStr u"
    and "\<exists>p. get_prop cfg ''password'' = JStr p"
  shows "\<exists>c. ConnectionConfigSchema_parse cfg = Inr c"
proof -
  from assms(3) obtain n where n: "get_prop cfg ''port'' = JNum n" "0 < n" "of_int \<lfloor>n\<rfloor> = n"
    by (elim exE conjE)
  from assms(4) obtain d where d: "get_prop cfg ''database'' = JStr d" by (elim exE)
  from assms(5) obtain u where u: "get_prop cfg ''username'' = JStr u" by (elim exE)
  from assms(6) obtain p where p: "get_prop cfg ''password'' = JStr p" by (elim exE)
  have port: "z_number_int_positive (get_prop cfg ''port'') = Some n"
    unfolding z_number_int_positive_def n(1) using n(2,3) by (simp del: of_int_floor_cancel)
  have strs: "z_string (get_prop cfg ''database'') = Some d"
    "z_string (get_prop cfg ''username'') = Some u" "z_string (get_prop cfg ''password'') = Some p"
    by (simp_all add: z_string_def d u p)
  from assms(1) obtain t where t: "z_type (get_prop cfg ''type'') = Some t"
    by (auto simp: z_type_def)
  from assms(2) obtain h where
    h: "z_string (z_default (JStr ''localhost'') (get_prop cfg ''host'')) = Some h"
    by (auto simp: z_string_def z_default_def)
  show ?thesis
    by (simp add: ConnectionConfigSchema_parse_def port strs t h)
qed

lemma factory_fail:
  "ConnectionConfigSchema_issues cfg \<noteq> [] \<Longrightarrow>
   createManagerFromConfig cfg = Inl (ZodError (ConnectionConfigSchema_issues cfg))"
  by (simp add: createManagerFromConfig_def parse_fail)

lemma factory_builds:
  assumes "ConnectionConfigSchema_parse cfg = Inr c"
  shows "\<exists>m. createManagerFromConfig cfg = Inr m"
  using assms parse_type [OF assms]
  by (auto simp: createManagerFromConfig_def MysqlDatabaseManager_new_def
      PostgresqlDatabaseManager_new_def)

lemma factory_error_is_zod:
  assumes "createManagerFromConfig cfg = Inl e"
  shows "e = ZodError (ConnectionConfigSchema_issues cfg)"
proof (cases "ConnectionConfigSchema_parse cfg")
  case (Inl e')
  with assms parse_error [OF Inl] show ?thesis by (simp add: createManagerFromConfig_def)
next
  case (Inr c)
  with assms parse_type [OF Inr] show ?thesis
    by (auto simp: createManagerFromConfig_def MysqlDatabaseManager_new_def
        PostgresqlDatabaseManager_new_def split: if_splits)
qed

text \<open>
  Claim C8, as stated, fails: the schema checks the string fields with \<^verbatim>\<open>z.string()\<close>, which
  accepts the empty string.  A configuration whose host, database, username and password
  are all empty passes the checks and the factory builds a MySQL adapter from it.
\<close>

theorem C8_empty_strings_counterexample:
  "get_prop cfg_empty_strings ''database'' = JStr [] \<and>
   createManagerFromConfig cfg_empty_strings =
     Inr (Mysql \<lparr> my_config = \<lparr> db_type = ''mysql'', host = [], port = 3306, database = [],
                                 username = [], password = [] \<rparr>,
                    my_conn = None \<rparr>)"
  by (simp add: cfg_empty_strings_def createManagerFromConfig_def ConnectionConfigSchema_parse_def
      get_prop_def inherited_def object_prototype_keys_def z_type_def z_string_def z_default_def z_number_int_positive_def
      MysqlDatabaseManager_new_def)

text \<open>
  Claim C8, amended.  The factory fails with the validation error of the schema, and so
  builds no adapter, for every configuration in which the type, the port, the database,
  the username or the password is missing, or in which the port is a number that is not
  positive or not an integer.  It builds an adapter for every configuration whose type
  is one of the two engines, whose port is a positive integer, whose database, username
  and password are strings of any length, the empty string included, and whose host is a
  string or is missing.
\<close>

theorem C8_validation_amended:
  "((get_prop cfg ''type'' = JUndefined \<or> get_prop cfg ''port'' = JUndefined \<or>
     get_prop cfg ''database'' = JUndefined \<or> get_prop cfg ''username'' = JUndefined \<or>
     get_prop cfg ''password'' = JUndefined \<or>
     (\<exists>n. get_prop cfg ''port'' = JNum n \<and> (n \<le> 0 \<or> of_int \<lfloor>n\<rfloor> \<noteq> n)))
    \<longrightarrow> (\<exists>i is. createManagerFromConfig cfg = Inl (ZodError (i # is)))) \<and>
   ((get_prop cfg ''type'' = JStr ''mysql'' \<or> get_prop cfg ''type'' = JStr ''postgres'') \<and>
    (get_prop cfg ''host'' = JUndefined \<or> (\<exists>h. get_prop cfg ''host'' = JStr h)) \<and>
    (\<exists>n. get_prop cfg ''port'' = JNum n \<and> 0 < n \<and> of_int \<lfloor>n\<rfloor> = n) \<and>
    (\<exists>d. get_prop cfg ''database'' = JStr d) \<and>
    (\<exists>u. get_prop cfg ''username'' = JStr u) \<and>
    (\<exists>p. get_prop cfg ''password'' = JStr p)
    \<longrightarrow> (\<exists>m. createManagerFromConfig cfg = Inr m))"
proof (intro conjI impI)
  assume bad: "get_prop cfg ''type'' = JUndefined \<or> get_prop cfg ''port'' = JUndefined \<or>
     get_prop cfg ''database'' = JUndefined \<or> get_prop cfg ''username'' = JUndefined \<or>
     get_prop cfg ''password'' = JUndefined \<or>
     (\<exists>n. get_prop cfg ''port'' = JNum n \<and> (n \<le> 0 \<or> of_int \<lfloor>n\<rfloor> \<noteq> n))"
  then have "ConnectionConfigSchema_issues cfg \<noteq> []"
    unfolding issues_Nil
    by (auto simp: z_type_def z_string_def z_number_int_positive_def
        simp del: of_int_floor_cancel)
  then show "\<exists>i is. createManagerFromConfig cfg = Inl (ZodError (i # is))"
    using factory_fail [of cfg] by (cases "ConnectionConfigSchema_issues cfg") auto
next
  assume good: "(get_prop cfg ''type'' = JStr ''mysql'' \<or> get_prop cfg ''type'' = JStr ''postgres'') \<and>
    (get_prop cfg ''host'' = JUndefined \<or> (\<exists>h. get_prop cfg ''host'' = JStr h)) \<and>
    (\<exists>n. get_prop cfg ''port'' = JNum n \<and> 0 < n \<and> of_int \<lfloor>n\<rfloor> = n) \<and>
    (\<exists>d. get_prop cfg ''database'' = JStr d) \<and>
    (\<exists>u. get_prop cfg ''username'' = JStr u) \<and>
    (\<exists>p. get_prop cfg ''password'' = JStr p)"
  have "\<exists>c. ConnectionConfigSchema_parse cfg = Inr c"
    by (rule parse_accepts) (use good in blast)+
  then show "\<exists>m. createManagerFromConfig cfg = Inr m"
    using factory_builds by blast
qed

theorem C8_validation_amended_witness:
  "get_prop cfg_fraction_port ''port'' = JNum (5 / 2) \<and>
   of_int \<lfloor>5 / 2 :: real\<rfloor> \<noteq> (5 / 2 :: real) \<and>
   createManagerFromConfig cfg_fraction_port = Inl (ZodError [''port''])"
proof -
  have p: "get_prop cfg_fraction_port ''port'' = JNum (5 / 2)"
    by (simp add: cfg_fraction_port_def get_prop_def inherited_def object_prototype_keys_def)
  have n: "of_int \<lfloor>5 / 2 :: real\<rfloor> \<noteq> (5 / 2 :: real)" by simp
  have bad: "get_prop cfg_fraction_port ''type'' = JUndefined \<or>
     get_prop cfg_fraction_port ''port'' = JUndefined \<or>
     get_prop cfg_fraction_port ''database'' = JUndefined \<or>
     get_prop cfg_fraction_port ''username'' = JUndefined \<or>
     get_prop cfg_fraction_port ''password'' = JUndefined \<or>
     (\<exists>n. get_prop cfg_fraction_port ''port'' = JNum n \<and> (n \<le> 0 \<or> of_int \<lfloor>n\<rfloor> \<noteq> n))"
    by (intro disjI2 exI [of _ "5 / 2"]) (simp add: p)
  from C8_validation_amended [of cfg_fraction_port, THEN conjunct1, rule_format, OF bad]
  obtain i "is" where f: "createManagerFromConfig cfg_fraction_port = Inl (ZodError (i # is))"
    by (elim exE)
  have "ConnectionConfigSchema_issues cfg_fraction_port = [''port'']"
    by (simp add: cfg_fraction_port_def ConnectionConfigSchema_issues_def get_prop_def inherited_def object_prototype_keys_def z_type_def
        z_string_def z_default_def z_number_int_positive_def)
  with factory_error_is_zod [OF f] f p n show ?thesis by simp
qed

text \<open>
  Claim C9.  For every configuration whose type is neither \<open>mysql\<close> nor \<open>postgres\<close>, the
  factory fails with the validation error of the schema, whose first issue is the field
  \<open>type\<close>, and so builds no adapter.  Whatever the configuration, the error of a failing
  factory call is this validation error of the schema.  The factory is a function of the
  configuration alone: it is given neither a driver nor the state of the system, as the
  source function, the schema and the two constructors contain no driver call.
\<close>

theorem C9_unsupported_engine:
  "(get_prop cfg ''type'' \<noteq> JStr ''mysql'' \<and> get_prop cfg ''type'' \<noteq> JStr ''postgres''
      \<longrightarrow> (\<exists>rest. createManagerFromConfig cfg = Inl (ZodError (''type'' # rest)))) \<and>
   (\<forall>e. createManagerFromConfig cfg = Inl e
      \<longrightarrow> e = ZodError (ConnectionConfigSchema_issues cfg))"
proof (intro conjI impI allI)
  assume "get_prop cfg ''type'' \<noteq> JStr ''mysql'' \<and> get_prop cfg ''type'' \<noteq> JStr ''postgres''"
  then have "\<exists>rest. ConnectionConfigSchema_issues cfg = ''type'' # rest"
    by (simp add: ConnectionConfigSchema_issues_def z_type_def)
  then show "\<exists>rest. createManagerFromConfig cfg = Inl (ZodError (''type'' # rest))"
    using factory_fail [of cfg] by auto
next
  fix e
  assume "createManagerFromConfig cfg = Inl e"
  then show "e = ZodError (ConnectionConfigSchema_issues cfg)"
    by (rule factory_error_is_zod)
qed

theorem C9_unsupported_engine_witness:
  "get_prop cfg_oracle ''type'' = JStr ''oracle'' \<and>
   createManagerFromConfig cfg_oracle = Inl (ZodError [''type''])"
proof -
  have t: "get_prop cfg_oracle ''type'' = JStr ''oracle''"
    by (simp add: cfg_oracle_def get_prop_def inherited_def object_prototype_keys_def)
  then have "get_prop cfg_oracle ''type'' \<noteq> JStr ''mysql'' \<and>
             get_prop cfg_oracle ''type'' \<noteq> JStr ''postgres''"
    by simp
  from C9_unsupported_engine [of cfg_oracle, THEN conjunct1, rule_format, OF this]
  obtain rest where f: "createManagerFromConfig cfg_oracle = Inl (ZodError (''type'' # rest))"
    by (elim exE)
  have "ConnectionConfigSchema_issues cfg_oracle = [''type'']"
    by (simp add: cfg_oracle_def ConnectionConfigSchema_issues_def get_prop_def inherited_def object_prototype_keys_def z_type_def
        z_string_def z_default_def z_number_int_positive_def)
  with factory_error_is_zod [OF f] f t show ?thesis by simp
qed

section \<open>Properties of the explain handler\<close>

lemma cache_get_found:
  assumes "cache_get dispose c now k s = (Inr (Some v), c1, s1)"
  shows "s1 = s"
  using assms
  by (auto simp: cache_get_def Let_def split: option.splits if_splits prod.splits sum.splits)

lemma execute_trace:
  assumes "conn_handle m = Some c"
  shows "trace (snd (snd (execute drv m q s))) =
           trace s @ [query_event m c (sql q) (params_or_empty (params q))]"
  using assms
  by (cases m)
     (auto simp: mysql_execute_def pg_execute_def issue_def Let_def
           split: option.splits prod.splits sum.splits mysql_rows.splits)

lemma explain_query_live:
  assumes "cache_get (connCache_dispose drv) (connCache srv) now cid (system srv) =
             (Inr (Some m), c1, s1)"
  shows "explain_query drv now cid q srv =
           (map_sum id (\<lambda>result. \<lparr> ex_columns = res_columns result, ex_rows = res_rows result,
                                     originalQuery = ex_sql q, withAnalysis = analyze q \<rparr>)
              (fst (execute drv m \<lparr> sql = explainQuery q, params = ex_params q \<rparr> (system srv))),
            \<lparr> connCache = c1,
              system = snd (snd (execute drv m \<lparr> sql = explainQuery q, params = ex_params q \<rparr>
                                   (system srv))) \<rparr>)"
  using cache_get_found [OF assms] assms
  by (simp add: explain_query_def split: prod.splits sum.splits)

lemma explain_query_trace:
  assumes "cache_get (connCache_dispose drv) (connCache srv) now cid (system srv) =
             (Inr (Some m), c1, s1)"
    and "conn_handle m = Some c"
  shows "trace (system (snd (explain_query drv now cid q srv))) =
           trace (system srv) @
             [query_event m c (explainQuery q) (params_or_empty (ex_params q))]"
  by (simp add: explain_query_live [OF assms(1)] execute_trace [OF assms(2)])

lemma demo_lookup_s1:
  "cache_get (connCache_dispose demo_driver) (connCache demo_server) 1000 ''s1''
     (system demo_server) =
   (Inr (Some demo_mysql),
    connCache_empty
      \<lparr> entries :=
          [\<lparr> ent_key = ''s1'', ent_value = demo_mysql, ent_start = 10, ent_used = 1000 \<rparr>,
           \<lparr> ent_key = ''s2'', ent_value = demo_postgres, ent_start = 20, ent_used = 20 \<rparr>] \<rparr>,
    sys0)"
  by (simp add: cache_get_def cache_find_def cache_without_def is_stale_def demo_server_def
      connCache_empty_def)

lemma demo_lookup_s2:
  "cache_get (connCache_dispose demo_driver) (connCache demo_server) 1000 ''s2''
     (system demo_server) =
   (Inr (Some demo_postgres),
    connCache_empty
      \<lparr> entries :=
          [\<lparr> ent_key = ''s2'', ent_value = demo_postgres, ent_start = 20, ent_used = 1000 \<rparr>,
           \<lparr> ent_key = ''s1'', ent_value = demo_mysql, ent_start = 10, ent_used = 10 \<rparr>] \<rparr>,
    sys0)"
  by (simp add: cache_get_def cache_find_def cache_without_def is_stale_def demo_server_def
      connCache_empty_def)

text \<open>
  Claim C3.  Let the lookup of the session find an adapter \<open>m\<close> that holds a connection
  \<open>c\<close>.  Then the explain handler issues exactly one driver call, on \<open>c\<close>: the statement
  \<open>EXPLAIN\<close> followed by a space and the original sql when \<open>analyze\<close> is false,
  \<open>EXPLAIN ANALYZE\<close> followed by a space and the original sql when it is true, with the
  parameters of the input, unchanged and in order (the empty list when the input has
  none).  What it returns is what \<open>execute\<close> of the adapter returns for that statement
  and these parameters: its error, or its columns and rows together with the original sql
  and the analyze flag.
\<close>

theorem C3_explain_passthrough:
  assumes "cache_get (connCache_dispose drv) (connCache srv) now cid (system srv) =
             (Inr (Some m), c1, s1)"
    and "conn_handle m = Some c"
  shows "trace (system (snd (explain_query drv now cid q srv))) =
           trace (system srv) @
             [query_event m c
                ((if analyze q then ''EXPLAIN ANALYZE '' else ''EXPLAIN '') @ ex_sql q)
                (case ex_params q of None \<Rightarrow> [] | Some ps \<Rightarrow> ps)] \<and>
         fst (explain_query drv now cid q srv) =
           (case fst (execute drv m
                        \<lparr> sql = (if analyze q then ''EXPLAIN ANALYZE '' else ''EXPLAIN '') @ ex_sql q,
                          params = ex_params q \<rparr> (system srv)) of
              Inl e \<Rightarrow> Inl e
            | Inr result \<Rightarrow>
                Inr \<lparr> ex_columns = res_columns result, ex_rows = res_rows result,
                      originalQuery = ex_sql q, withAnalysis = analyze q \<rparr>)"
proof -
  have eq: "explainQuery q = (if analyze q then ''EXPLAIN ANALYZE '' else ''EXPLAIN '') @ ex_sql q"
    by (simp add: explainQuery_def)
  have ps: "params_or_empty (ex_params q) = (case ex_params q of None \<Rightarrow> [] | Some ps \<Rightarrow> ps)"
    by (simp add: params_or_empty_def)
  have "trace (system (snd (explain_query drv now cid q srv))) =
          trace (system srv) @
            [query_event m c (explainQuery q) (params_or_empty (ex_params q))]"
    using assms by (rule explain_query_trace)
  moreover have "fst (explain_query drv now cid q srv) =
      (case fst (execute drv m \<lparr> sql = explainQuery q, params = ex_params q \<rparr> (system srv)) of
         Inl e \<Rightarrow> Inl e
       | Inr result \<Rightarrow>
           Inr \<lparr> ex_columns = res_columns result, ex_rows = res_rows result,
                 originalQuery = ex_sql q, withAnalysis = analyze q \<rparr>)"
    by (simp add: explain_query_live [OF assms(1)] split: sum.splits)
  ultimately show ?thesis unfolding eq ps by simp
qed

theorem C3_explain_passthrough_witness:
  "trace (system (snd (explain_query demo_driver 1000 ''s1'' (select_1 False) demo_server))) =
     [MysqlExecute 1 ''EXPLAIN SELECT 1'' []] \<and>
   fst (explain_query demo_driver 1000 ''s1'' (select_1 False) demo_server) =
     Inr \<lparr> ex_columns = [''a'', ''b''], ex_rows = [[JNum 1, JNull]],
           originalQuery = ''SELECT 1'', withAnalysis = False \<rparr> \<and>
   trace (system (snd (explain_query demo_driver 1000 ''s1'' (select_1 True) demo_server))) =
     [MysqlExecute 1 ''EXPLAIN ANALYZE SELECT 1'' []] \<and>
   trace (system (snd (explain_query demo_driver 1000 ''s1'' select_with_param demo_server))) =
     [MysqlExecute 1 ''EXPLAIN SELECT ?'' [JNum 5]] \<and>
   fst (explain_query demo_driver 1000 ''s1'' select_with_param demo_server) =
     Inr \<lparr> ex_columns = [''a'', ''b''], ex_rows = [[JNum 1, JNull]],
           originalQuery = ''SELECT ?'', withAnalysis = False \<rparr>"
proof -
  have c: "conn_handle demo_mysql = Some 1" by (simp add: demo_mysql_def)
  have e: "fst (execute demo_driver demo_mysql
                  \<lparr> sql = ''EXPLAIN SELECT 1'', params = None \<rparr> sys0) =
           Inr \<lparr> res_columns = [''a'', ''b''], res_rows = [[JNum 1, JNull]] \<rparr>"
    by (simp add: demo_mysql_def mysql_execute_def issue_def demo_driver_def sys0_def
        params_or_empty_def format_row_def get_prop_def inherited_def object_prototype_keys_def
        nullish_def demo_row_def)
  have e5: "fst (execute demo_driver demo_mysql
                  \<lparr> sql = ''EXPLAIN SELECT ?'', params = Some [JNum 5] \<rparr> sys0) =
           Inr \<lparr> res_columns = [''a'', ''b''], res_rows = [[JNum 1, JNull]] \<rparr>"
    by (simp add: demo_mysql_def mysql_execute_def issue_def demo_driver_def sys0_def
        params_or_empty_def format_row_def get_prop_def inherited_def object_prototype_keys_def
        nullish_def demo_row_def)
  have s: "system demo_server = sys0" "trace sys0 = []"
    by (simp_all add: demo_server_def sys0_def)
  from C3_explain_passthrough [OF demo_lookup_s1 c, of "select_1 False"]
       C3_explain_passthrough [OF demo_lookup_s1 c, of "select_1 True"]
       C3_explain_passthrough [OF demo_lookup_s1 c, of select_with_param] e e5
  show ?thesis
    by (simp add: select_1_def select_with_param_def s demo_mysql_def)
qed

text \<open>
  Claim C10.  Take a session that holds a connected MySQL adapter and a session that holds
  a connected Postgres adapter, on any two servers and at any two times, and give the
  explain handler the same input on both.  The statement text and the parameters of the
  driver call are the same on both, and the text is fixed by the sql and the analyze flag
  of the input alone.
\<close>

theorem C10_explain_engine_independent:
  assumes "cache_get (connCache_dispose drv) (connCache srv1) now1 id1 (system srv1) =
             (Inr (Some (Mysql a)), c1, s1)"
    and "my_conn a = Some h1"
    and "cache_get (connCache_dispose drv) (connCache srv2) now2 id2 (system srv2) =
           (Inr (Some (Postgresql b)), c2, s2)"
    and "pg_conn b = Some h2"
  shows "\<exists>stmt ps.
           trace (system (snd (explain_query drv now1 id1 q srv1))) =
             trace (system srv1) @ [MysqlExecute h1 stmt ps] \<and>
           trace (system (snd (explain_query drv now2 id2 q srv2))) =
             trace (system srv2) @ [PgQuery h2 stmt ps] \<and>
           stmt = (if analyze q then ''EXPLAIN ANALYZE '' else ''EXPLAIN '') @ ex_sql q"
proof -
  have eq: "explainQuery q = (if analyze q then ''EXPLAIN ANALYZE '' else ''EXPLAIN '') @ ex_sql q"
    by (simp add: explainQuery_def)
  have 1: "trace (system (snd (explain_query drv now1 id1 q srv1))) =
             trace (system srv1) @
               [MysqlExecute h1 (explainQuery q) (params_or_empty (ex_params q))]"
    using explain_query_trace [OF assms(1), of h1 q] assms(2) by simp
  have 2: "trace (system (snd (explain_query drv now2 id2 q srv2))) =
             trace (system srv2) @
               [PgQuery h2 (explainQuery q) (params_or_empty (ex_params q))]"
    using explain_query_trace [OF assms(3), of h2 q] assms(4) by simp
  from 1 2 eq show ?thesis by blast
qed

theorem C10_explain_engine_independent_witness:
  "trace (system (snd (explain_query demo_driver 1000 ''s1'' (select_1 True) demo_server))) =
     [MysqlExecute 1 ''EXPLAIN ANALYZE SELECT 1'' []] \<and>
   trace (system (snd (explain_query demo_driver 1000 ''s2'' (select_1 True) demo_server))) =
     [PgQuery 2 ''EXPLAIN ANALYZE SELECT 1'' []]"
proof -
  have m: "my_conn \<lparr> my_config = demo_config ''mysql'', my_conn = Some 1 \<rparr> = Some 1" by simp
  have p: "pg_conn \<lparr> pg_config = demo_config ''postgres'', pg_conn = Some 2 \<rparr> = Some 2" by simp
  have s: "system demo_server = sys0" "trace sys0 = []"
    by (simp_all add: demo_server_def sys0_def)
  from C10_explain_engine_independent
         [OF demo_lookup_s1 [unfolded demo_mysql_def] m demo_lookup_s2 [unfolded demo_postgres_def] p,
          of "select_1 True"]
  obtain stmt ps where
    t: "trace (system (snd (explain_query demo_driver 1000 ''s1'' (select_1 True) demo_server))) =
          trace (system demo_server) @ [MysqlExecute 1 stmt ps]"
       "trace (system (snd (explain_query demo_driver 1000 ''s2'' (select_1 True) demo_server))) =
          trace (system demo_server) @ [PgQuery 2 stmt ps]"
       "stmt = (if analyze (select_1 True) then ''EXPLAIN ANALYZE '' else ''EXPLAIN '') @
                ex_sql (select_1 True)"
    by (elim exE conjE)
  have "trace (system (snd (explain_query demo_driver 1000 ''s1'' (select_1 True) demo_server))) =
          trace (system demo_server) @
            [MysqlExecute 1 (explainQuery (select_1 True)) (params_or_empty (ex_params (select_1 True)))]"
    using explain_query_trace [OF demo_lookup_s1, of 1 "select_1 True"]
    by (simp add: demo_mysql_def)
  with t(1) have "ps = params_or_empty (ex_params (select_1 True))" by simp
  then have "ps = []" by (simp add: select_1_def params_or_empty_def)
  with t s show ?thesis by (simp add: select_1_def)
qed

section \<open>Properties of the registry\<close>

lemma dispose_result: "fst (connCache_dispose drv v s) = Inr ()"
  by (simp add: connCache_dispose_def split: prod.splits)

lemma dispose_system:
  "snd (connCache_dispose drv v s) = snd (snd (disconnect drv v s))"
proof -
  obtain r m' s' where d: "disconnect drv v s = (r, m', s')" by (cases "disconnect drv v s")
  from disconnect_result [OF d] have "r = Inr ()" by simp
  with d show ?thesis by (simp add: connCache_dispose_def)
qed

lemma dispose_eq: "connCache_dispose drv v s = (Inr (), snd (snd (disconnect drv v s)))"
  using dispose_result [of drv v s] dispose_system [of drv v s]
  by (cases "connCache_dispose drv v s") simp

lemma disconnect_trace: "trace (snd (snd (disconnect drv v s))) = trace s @ close_events v"
proof -
  obtain r m' s' where d: "disconnect drv v s = (r, m', s')" by (cases "disconnect drv v s")
  from disconnect_result [OF d] d show ?thesis by simp
qed

lemma find_without:
  "k' \<noteq> k \<Longrightarrow> find (\<lambda>e. ent_key e = k') (cache_without k es) = find (\<lambda>e. ent_key e = k') es"
  by (induction es) (auto simp: cache_without_def)

lemma find_without_same: "find (\<lambda>e. ent_key e = k) (cache_without k es) = None"
  by (induction es) (auto simp: cache_without_def)

lemma length_without: "length (cache_without k es) \<le> length es"
  by (simp add: cache_without_def)

lemma length_without_found:
  "find (\<lambda>e. ent_key e = k) es = Some e \<Longrightarrow> length (cache_without k es) < length es"
  by (induction es) (auto simp: cache_without_def le_imp_less_Suc split: if_splits)

lemma cache_get_params:
  "cache_max (fst (snd (cache_get d c now k s))) = cache_max c \<and>
   cache_ttl (fst (snd (cache_get d c now k s))) = cache_ttl c"
  by (simp add: cache_get_def split: option.splits prod.splits)

lemma cache_set_params:
  "cache_max (fst (snd (cache_set d c now k v s))) = cache_max c \<and>
   cache_ttl (fst (snd (cache_set d c now k v s))) = cache_ttl c"
  by (simp add: cache_set_def Let_def split: option.splits prod.splits list.splits)

lemma cache_get_length:
  "length (entries (fst (snd (cache_get d c now k s)))) \<le> length (entries c)"
  using length_without_found [of k "entries c"] length_without [of k "entries c"]
  by (auto simp: cache_get_def cache_find_def Suc_le_eq split: option.splits prod.splits)

lemma cache_set_length:
  assumes "length (entries c) \<le> cache_max c" and "0 < cache_max c"
  shows "length (entries (fst (snd (cache_set d c now k v s)))) \<le> cache_max c"
proof (cases "cache_find c k")
  case None
  show ?thesis
  proof (cases "length (entries c) < cache_max c")
    case True
    with None show ?thesis by (simp add: cache_set_def)
  next
    case False
    with assms have full: "length (entries c) = cache_max c" by simp
    with assms(2) obtain lru older where r: "rev (entries c) = lru # older"
      by (cases "rev (entries c)") auto
    then have "length older + 1 = length (entries c)"
      by (metis length_rev length_Cons Suc_eq_plus1)
    with None False r full show ?thesis
      by (simp add: cache_set_def split: prod.splits)
  qed
next
  case (Some old)
  then have "length (cache_without k (entries c)) < length (entries c)"
    by (simp add: cache_find_def length_without_found)
  with Some assms show ?thesis
    by (simp add: cache_set_def split: prod.splits)
qed


lemma cache_step_params:
  "cache_max (fst (cache_step d cs op)) = cache_max (fst cs) \<and>
   cache_ttl (fst (cache_step d cs op)) = cache_ttl (fst cs)"
  by (cases op) (simp_all add: cache_get_params cache_set_params)

lemma cache_step_length:
  assumes "length (entries (fst cs)) \<le> cache_max (fst cs)" and "0 < cache_max (fst cs)"
  shows "length (entries (fst (cache_step d cs op))) \<le> cache_max (fst cs)"
proof (cases op)
  case (Put now k v)
  with cache_set_length [OF assms] show ?thesis by simp
next
  case (Get now k)
  with cache_get_length [of d "fst cs" now k "snd cs"] assms(1) show ?thesis by simp
qed

lemma cache_run_capacity:
  assumes "length (entries (fst cs)) \<le> cache_max (fst cs)" and "0 < cache_max (fst cs)"
  shows "length (entries (fst (cache_run d ops cs))) \<le> cache_max (fst cs) \<and>
         cache_max (fst (cache_run d ops cs)) = cache_max (fst cs) \<and>
         cache_ttl (fst (cache_run d ops cs)) = cache_ttl (fst cs)"
  using assms
proof (induction ops arbitrary: cs)
  case Nil
  then show ?case by (simp add: cache_run_def)
next
  case (Cons op ops)
  have p: "cache_max (fst (cache_step d cs op)) = cache_max (fst cs)"
          "cache_ttl (fst (cache_step d cs op)) = cache_ttl (fst cs)"
    by (simp_all add: cache_step_params)
  have l: "length (entries (fst (cache_step d cs op))) \<le> cache_max (fst (cache_step d cs op))"
    using cache_step_length [OF Cons.prems] p by simp
  from Cons.IH [OF l] Cons.prems(2) p show ?case by (simp add: cache_run_def)
qed

lemma sorted_rev_without:
  "sorted (rev (map ent_used es)) \<Longrightarrow> sorted (rev (map ent_used (cache_without k es)))"
  unfolding cache_without_def
  by (induction es) (auto simp: sorted_append)

lemma set_without: "set (cache_without k es) \<subseteq> set es"
  by (auto simp: cache_without_def)

lemma find_Some_mem: "find P xs = Some x \<Longrightarrow> x \<in> set xs"
  by (induction xs) (auto split: if_splits)

lemma cache_get_recency:
  assumes "recency_ordered c" and "used_by t c" and "t \<le> now"
  shows "recency_ordered (fst (snd (cache_get d c now k s))) \<and>
         used_by now (fst (snd (cache_get d c now k s)))"
proof -
  have w: "sorted (rev (map ent_used (cache_without k (entries c))))"
    using assms(1) by (simp add: recency_ordered_def sorted_rev_without)
  have b: "\<forall>e \<in> set (cache_without k (entries c)). ent_used e \<le> now"
    using assms(2,3) set_without [of k "entries c"] by (fastforce simp: used_by_def)
  have b': "\<forall>e \<in> set (entries c). ent_used e \<le> now"
    using assms(2,3) by (fastforce simp: used_by_def)
  show ?thesis
    using w b b' assms(1)
    by (auto simp: cache_get_def recency_ordered_def used_by_def sorted_append
        split: option.splits prod.splits)
qed

lemma rev_Cons_butlast: "rev xs = y # ys \<Longrightarrow> xs = rev ys @ [y]"
  by (metis rev.simps(2) rev_rev_ident)

lemma cache_set_recency:
  assumes "recency_ordered c" and "used_by t c" and "t \<le> now"
  shows "recency_ordered (fst (snd (cache_set d c now k v s))) \<and>
         used_by now (fst (snd (cache_set d c now k v s)))"
proof -
  have w: "sorted (rev (map ent_used (cache_without k (entries c))))"
    using assms(1) by (simp add: recency_ordered_def sorted_rev_without)
  have b: "\<forall>e \<in> set (cache_without k (entries c)). ent_used e \<le> now"
    using assms(2,3) set_without [of k "entries c"] by (fastforce simp: used_by_def)
  have b': "\<forall>e \<in> set (entries c). ent_used e \<le> now"
    using assms(2,3) by (fastforce simp: used_by_def)
  have ev: "sorted (rev (map ent_used (rev older))) \<and> (\<forall>e \<in> set (rev older). ent_used e \<le> now)"
    if "rev (entries c) = lru # older" for lru older
  proof -
    from that have "entries c = rev older @ [lru]" by (rule rev_Cons_butlast)
    with assms(1) b' show ?thesis by (auto simp: recency_ordered_def sorted_append)
  qed
  show ?thesis
    using w b b' assms(1) ev
    by (auto simp: cache_set_def Let_def recency_ordered_def used_by_def sorted_append
        split: option.splits prod.splits list.splits)
qed


lemma cache_step_recency:
  assumes "recency_ordered (fst cs)" and "used_by t (fst cs)" and "t \<le> op_time op"
  shows "recency_ordered (fst (cache_step d cs op)) \<and> used_by (op_time op) (fst (cache_step d cs op))"
  using cache_get_recency [OF assms(1,2)] cache_set_recency [OF assms(1,2)] assms(3)
  by (cases op) simp_all

lemma cache_run_recency:
  assumes "recency_ordered (fst cs)" and "used_by t (fst cs)" and "sorted (t # map op_time ops)"
  shows "recency_ordered (fst (cache_run d ops cs))"
  using assms
proof (induction ops arbitrary: cs t)
  case Nil
  then show ?case by (simp add: cache_run_def)
next
  case (Cons op ops)
  from Cons.prems(3) have le: "t \<le> op_time op" and rest: "sorted (op_time op # map op_time ops)"
    by simp_all
  from cache_step_recency [OF Cons.prems(1,2) le]
  have "recency_ordered (fst (cache_step d cs op))" "used_by (op_time op) (fst (cache_step d cs op))"
    by simp_all
  from Cons.IH [OF this rest] show ?case by (simp add: cache_run_def)
qed

lemma least_recently_used:
  assumes "recency_ordered c" and "entries c \<noteq> []"
  shows "\<forall>e \<in> set (entries c). ent_used (last (entries c)) \<le> ent_used e"
proof -
  from assms(2) obtain es x where e: "entries c = es @ [x]"
    by (metis append_butlast_last_id)
  with assms(1) show ?thesis by (auto simp: recency_ordered_def sorted_append)
qed

lemma cache_set_full:
  assumes "length (entries c) = cache_max c" and "0 < cache_max c" and "cache_find c k = None"
  shows "cache_set (connCache_dispose drv) c now k v s =
           (Inr (),
            c\<lparr> entries := \<lparr> ent_key = k, ent_value = v, ent_start = now, ent_used = now \<rparr>
                            # butlast (entries c) \<rparr>,
            snd (snd (disconnect drv (ent_value (last (entries c))) s)))"
proof -
  from assms(1,2) have ne: "entries c \<noteq> []" by auto
  then obtain lru older where r: "rev (entries c) = lru # older"
    by (cases "rev (entries c)") auto
  then have e: "entries c = rev older @ [lru]" by (rule rev_Cons_butlast)
  then have bl: "butlast (entries c) = rev older" "last (entries c) = lru" by simp_all
  show ?thesis
    using assms(1,3) r
    by (simp add: cache_set_def dispose_eq bl)
qed


lemma empty_registry:
  "length (entries connCache_empty) \<le> cache_max connCache_empty \<and>
   0 < cache_max connCache_empty \<and> cache_max connCache_empty = 100 \<and>
   cache_ttl connCache_empty = 300000 \<and>
   recency_ordered connCache_empty \<and> used_by 0 connCache_empty"
  by (simp add: connCache_empty_def recency_ordered_def used_by_def)

lemma registry_reachable:
  "length (entries (fst (cache_run d ops (connCache_empty, s0)))) \<le> 100 \<and>
   cache_max (fst (cache_run d ops (connCache_empty, s0))) = 100 \<and>
   cache_ttl (fst (cache_run d ops (connCache_empty, s0))) = 300000"
  using cache_run_capacity [of "(connCache_empty, s0)" d ops] empty_registry by simp

lemma registry_reachable_recency:
  assumes "sorted (map op_time ops)"
  shows "recency_ordered (fst (cache_run d ops (connCache_empty, s0)))"
proof -
  have "sorted (0 # map op_time ops)" using assms by simp
  with cache_run_recency [of "(connCache_empty, s0)" 0 ops d] empty_registry
  show ?thesis by simp
qed

text \<open>
  Claim C4.  Whatever operations are made on the registry of the source, starting from
  the empty one, it holds at most 100 entries, and if the operations are made at times
  that do not decrease its entries are in the order of their last use.  When the registry
  holds 100 entries in that order, a \<open>put\<close> under a new identifier returns normally; the
  entries are then the new one followed by the old ones without the last; the last was
  used least recently of all; and the system is the one the disposal hook leaves when
  run once on the evicted adapter, which is the one \<open>disconnect\<close> of that adapter leaves:
  the adapter's handle, if it has one, is closed once, and a failure of the close is
  written to the console and not raised.
\<close>

theorem C4_capacity_eviction:
  "(\<forall>ops s0. length (entries (fst (cache_run (connCache_dispose drv) ops (connCache_empty, s0))))
       \<le> 100) \<and>
   (\<forall>ops s0. sorted (map op_time ops) \<longrightarrow>
       recency_ordered (fst (cache_run (connCache_dispose drv) ops (connCache_empty, s0)))) \<and>
   (cache_max c = 100 \<and> length (entries c) = 100 \<and> cache_find c k = None \<and> recency_ordered c
      \<longrightarrow>
      cache_set (connCache_dispose drv) c now k v s =
        (Inr (),
         c\<lparr> entries := \<lparr> ent_key = k, ent_value = v, ent_start = now, ent_used = now \<rparr>
                         # butlast (entries c) \<rparr>,
         snd (connCache_dispose drv (ent_value (last (entries c))) s)) \<and>
      (\<forall>e \<in> set (entries c). ent_used (last (entries c)) \<le> ent_used e) \<and>
      connCache_dispose drv (ent_value (last (entries c))) s =
        (Inr (), snd (snd (disconnect drv (ent_value (last (entries c))) s))) \<and>
      trace (snd (connCache_dispose drv (ent_value (last (entries c))) s)) =
        trace s @ close_events (ent_value (last (entries c))) \<and>
      (\<forall>h e. conn_handle (ent_value (last (entries c))) = Some h \<and>
             fst (driver_end drv (ent_value (last (entries c))) h (world s)) = Inl e \<longrightarrow>
             console (snd (connCache_dispose drv (ent_value (last (entries c))) s)) =
               console s @ [(''Error disconnecting from MySQL:'', e)]))"
proof (intro conjI allI impI)
  fix ops :: "AnyDatabaseManager cache_op list" and s0 :: "'a sys"
  show "length (entries (fst (cache_run (connCache_dispose drv) ops (connCache_empty, s0)))) \<le> 100"
    by (simp add: registry_reachable)
next
  fix ops :: "AnyDatabaseManager cache_op list" and s0 :: "'a sys"
  assume "sorted (map op_time ops)"
  then show "recency_ordered (fst (cache_run (connCache_dispose drv) ops (connCache_empty, s0)))"
    by (rule registry_reachable_recency)
next
  assume h: "cache_max c = 100 \<and> length (entries c) = 100 \<and> cache_find c k = None \<and>
             recency_ordered c"
  then have full: "length (entries c) = cache_max c" "0 < cache_max c" "cache_find c k = None"
    and ne: "entries c \<noteq> []" and ro: "recency_ordered c"
    by auto
  let ?ev = "ent_value (last (entries c))"
  obtain r m' s' where d: "disconnect drv ?ev s = (r, m', s')"
    by (cases "disconnect drv ?ev s")
  show "cache_set (connCache_dispose drv) c now k v s =
        (Inr (),
         c\<lparr> entries := \<lparr> ent_key = k, ent_value = v, ent_start = now, ent_used = now \<rparr>
                         # butlast (entries c) \<rparr>,
         snd (connCache_dispose drv ?ev s))"
    using cache_set_full [OF full] by (simp add: dispose_system)
  show "\<forall>e \<in> set (entries c). ent_used (last (entries c)) \<le> ent_used e"
    using least_recently_used [OF ro ne] .
  show "connCache_dispose drv ?ev s = (Inr (), snd (snd (disconnect drv ?ev s)))"
    by (rule dispose_eq)
  show "trace (snd (connCache_dispose drv ?ev s)) = trace s @ close_events ?ev"
    by (simp add: dispose_system disconnect_trace)
  show "\<And>h e. conn_handle ?ev = Some h \<and> fst (driver_end drv ?ev h (world s)) = Inl e \<Longrightarrow>
          console (snd (connCache_dispose drv ?ev s)) =
            console s @ [(''Error disconnecting from MySQL:'', e)]"
    using disconnect_result [OF d] d by (simp add: dispose_system)
qed

lemma sorted_rev_countdown: "sorted (rev (map (\<lambda>i. n - i) [0..<m]))"
  by (induction m) (auto simp: sorted_append)

lemma demo_full_ready:
  "cache_max demo_full = 100 \<and> length (entries demo_full) = 100 \<and>
   cache_find demo_full ''new'' = None \<and> recency_ordered demo_full"
proof -
  have "ent_used \<circ> full_entry = (\<lambda>i. 99 - i)"
    by (auto simp: full_entry_def)
  then have "recency_ordered demo_full"
    using sorted_rev_countdown [of 99 "Suc 99"]
    by (simp add: recency_ordered_def demo_full_def del: upt_Suc)
  moreover have "cache_find demo_full ''new'' = None"
    by (simp add: cache_find_def demo_full_def find_None_iff full_entry_def del: upt_Suc)
  ultimately show ?thesis
    by (simp add: demo_full_def connCache_empty_def del: upt_Suc)
qed

theorem C4_capacity_eviction_witness:
  "cache_max demo_full = 100 \<and> length (entries demo_full) = 100 \<and>
   cache_find demo_full ''new'' = None \<and> recency_ordered demo_full \<and>
   cache_set (connCache_dispose demo_driver) demo_full 500 ''new'' demo_postgres sys0 =
     (Inr (),
      demo_full\<lparr> entries := \<lparr> ent_key = ''new'', ent_value = demo_postgres, ent_start = 500,
                                ent_used = 500 \<rparr> # map full_entry [0..<99] \<rparr>,
      \<lparr> world = 1, trace = [MysqlEnd 1],
        console = [(''Error disconnecting from MySQL:'', Error ''closed'')] \<rparr>)"
proof -
  have u: "[0..<Suc 99] = [0..<99] @ [99]"
    by (rule upt_Suc_append) simp
  have l: "last (entries demo_full) = full_entry 99"
          "butlast (entries demo_full) = map full_entry [0..<99]"
    unfolding demo_full_def u by simp_all
  have v: "ent_value (full_entry 99) = demo_mysql" by (simp add: full_entry_def)
  have d: "snd (connCache_dispose demo_driver demo_mysql sys0) =
             \<lparr> world = 1, trace = [MysqlEnd 1],
               console = [(''Error disconnecting from MySQL:'', Error ''closed'')] \<rparr>"
    by (simp add: connCache_dispose_def demo_mysql_def mysql_disconnect_def issue_def
        demo_driver_def sys0_def console_error_def)
  from C4_capacity_eviction [of demo_driver demo_full "''new''" 500 demo_postgres sys0]
       demo_full_ready
  have "cache_set (connCache_dispose demo_driver) demo_full 500 ''new'' demo_postgres sys0 =
        (Inr (),
         demo_full\<lparr> entries := \<lparr> ent_key = ''new'', ent_value = demo_postgres, ent_start = 500,
                                   ent_used = 500 \<rparr> # butlast (entries demo_full) \<rparr>,
         snd (connCache_dispose demo_driver (ent_value (last (entries demo_full))) sys0))"
    by blast
  with demo_full_ready show ?thesis by (simp add: l v d)
qed

lemma find_key: "find (\<lambda>e. ent_key e = k) es = Some e \<Longrightarrow> ent_key e = k"
  by (induction es) (auto split: if_splits)

lemma cache_get_entries:
  "entries (fst (snd (cache_get d c now k' s))) =
     (case cache_find c k' of
        None \<Rightarrow> entries c
      | Some e \<Rightarrow>
          if is_stale c now e then cache_without k' (entries c)
          else e\<lparr> ent_used := now \<rparr> # cache_without k' (entries c))"
  by (simp add: cache_get_def split: option.splits prod.splits)

lemma cache_get_start_same:
  "map_option ent_start (cache_find (fst (snd (cache_get d c now k s))) k) = None \<or>
   map_option ent_start (cache_find (fst (snd (cache_get d c now k s))) k) =
     map_option ent_start (cache_find c k)"
proof (cases "cache_find c k")
  case None
  have "entries (fst (snd (cache_get d c now k s))) = entries c"
    unfolding cache_get_entries None by simp
  then show ?thesis unfolding cache_find_def by simp
next
  case (Some e)
  then have key: "ent_key e = k" unfolding cache_find_def by (rule find_key)
  show ?thesis
  proof (cases "is_stale c now e")
    case True
    have "entries (fst (snd (cache_get d c now k s))) = cache_without k (entries c)"
      unfolding cache_get_entries Some using True by simp
    then show ?thesis unfolding cache_find_def by (simp add: find_without_same)
  next
    case False
    have "entries (fst (snd (cache_get d c now k s))) =
            e\<lparr> ent_used := now \<rparr> # cache_without k (entries c)"
      unfolding cache_get_entries Some using False by simp
    then have "cache_find (fst (snd (cache_get d c now k s))) k = Some (e\<lparr> ent_used := now \<rparr>)"
      unfolding cache_find_def using key by simp
    with Some show ?thesis by simp
  qed
qed

lemma cache_get_start_other:
  assumes "k \<noteq> k'"
  shows "cache_find (fst (snd (cache_get d c now k' s))) k = cache_find c k"
proof (cases "cache_find c k'")
  case None
  have "entries (fst (snd (cache_get d c now k' s))) = entries c"
    unfolding cache_get_entries None by simp
  then show ?thesis unfolding cache_find_def by simp
next
  case (Some e)
  then have key: "ent_key e = k'" unfolding cache_find_def by (rule find_key)
  with assms have ke: "ent_key e \<noteq> k" by simp
  show ?thesis
  proof (cases "is_stale c now e")
    case True
    have "entries (fst (snd (cache_get d c now k' s))) = cache_without k' (entries c)"
      unfolding cache_get_entries Some using True by simp
    then show ?thesis unfolding cache_find_def by (simp add: find_without [OF assms])
  next
    case False
    have "entries (fst (snd (cache_get d c now k' s))) =
            e\<lparr> ent_used := now \<rparr> # cache_without k' (entries c)"
      unfolding cache_get_entries Some using False by simp
    then show ?thesis unfolding cache_find_def using ke by (simp add: find_without [OF assms])
  qed
qed

lemma cache_get_start:
  "map_option ent_start (cache_find (fst (snd (cache_get d c now k' s))) k) = None \<or>
   map_option ent_start (cache_find (fst (snd (cache_get d c now k' s))) k) =
     map_option ent_start (cache_find c k)"
proof (cases "k = k'")
  case True
  show ?thesis unfolding True by (rule cache_get_start_same)
next
  case False
  then show ?thesis by (simp add: cache_get_start_other)
qed

lemma cache_get_keeps_start:
  assumes "cache_get d c now k' s = (Inr (Some v'), c', s')"
  shows "map_option ent_start (cache_find c' k) = map_option ent_start (cache_find c k)"
proof -
  have c': "c' = fst (snd (cache_get d c now k' s))" using assms by simp
  show ?thesis
  proof (cases "k = k'")
    case False
    then show ?thesis unfolding c' by (simp add: cache_get_start_other)
  next
    case True
    obtain e where e: "cache_find c k' = Some e" and fresh: "\<not> is_stale c now e"
      using assms
      by (cases "cache_find c k'")
         (auto simp: cache_get_def split: if_splits prod.splits sum.splits)
    from e have key: "ent_key e = k'" unfolding cache_find_def by (rule find_key)
    have "entries c' = e\<lparr> ent_used := now \<rparr> # cache_without k' (entries c)"
      unfolding c' cache_get_entries e using fresh by simp
    then have "cache_find c' k' = Some (e\<lparr> ent_used := now \<rparr>)"
      unfolding cache_find_def using key by simp
    with e show ?thesis unfolding True by simp
  qed
qed

lemma find_butlast: "find P (butlast xs) = Some e \<Longrightarrow> find P xs = Some e"
  by (induction xs) (auto split: if_splits)

lemma cache_set_entries:
  "entries (fst (snd (cache_set d c now k' v s))) =
     \<lparr> ent_key = k', ent_value = v, ent_start = now, ent_used = now \<rparr> #
       (case cache_find c k' of
          Some old \<Rightarrow> cache_without k' (entries c)
        | None \<Rightarrow> if length (entries c) < cache_max c then entries c else butlast (entries c))"
proof (cases "rev (entries c)")
  case Nil
  then show ?thesis
    by (simp add: cache_set_def Let_def split: option.splits prod.splits)
next
  case (Cons lru older)
  then have "entries c = rev older @ [lru]" by (rule rev_Cons_butlast)
  then have "butlast (entries c) = rev older" by simp
  with Cons show ?thesis
    by (simp add: cache_set_def Let_def split: option.splits prod.splits)
qed

lemma cache_set_finds:
  "cache_find (fst (snd (cache_set d c t0 k v s))) k =
     Some \<lparr> ent_key = k, ent_value = v, ent_start = t0, ent_used = t0 \<rparr>"
  unfolding cache_find_def cache_set_entries by simp

lemma cache_set_start:
  assumes "k \<noteq> k'"
  shows "map_option ent_start (cache_find (fst (snd (cache_set d c now k' v s))) k) = None \<or>
         map_option ent_start (cache_find (fst (snd (cache_set d c now k' v s))) k) =
           map_option ent_start (cache_find c k)"
proof -
  define rest where
    "rest = (case cache_find c k' of
               Some old \<Rightarrow> cache_without k' (entries c)
             | None \<Rightarrow> if length (entries c) < cache_max c then entries c
                       else butlast (entries c))"
  have "entries (fst (snd (cache_set d c now k' v s))) =
          \<lparr> ent_key = k', ent_value = v, ent_start = now, ent_used = now \<rparr> # rest"
    unfolding rest_def by (rule cache_set_entries)
  then have f: "cache_find (fst (snd (cache_set d c now k' v s))) k =
                  find (\<lambda>e. ent_key e = k) rest"
    unfolding cache_find_def using assms by simp
  have "find (\<lambda>e. ent_key e = k) rest = None \<or>
        find (\<lambda>e. ent_key e = k) rest = cache_find c k"
  proof (cases "cache_find c k'")
    case (Some old)
    then show ?thesis unfolding rest_def by (simp add: cache_find_def find_without [OF assms])
  next
    case None
    show ?thesis
    proof (cases "length (entries c) < cache_max c")
      case True
      with None show ?thesis unfolding rest_def by (simp add: cache_find_def)
    next
      case False
      with None have r: "rest = butlast (entries c)" unfolding rest_def by simp
      show ?thesis
        using find_butlast [of "\<lambda>e. ent_key e = k" "entries c"]
        unfolding r cache_find_def
        by (cases "find (\<lambda>e. ent_key e = k) (butlast (entries c))") simp_all
    qed
  qed
  then show ?thesis unfolding f by auto
qed

lemma cache_step_start:
  assumes "\<not> puts_key k op"
  shows "map_option ent_start (cache_find (fst (cache_step d cs op)) k) = None \<or>
         map_option ent_start (cache_find (fst (cache_step d cs op)) k) =
           map_option ent_start (cache_find (fst cs) k)"
proof (cases op)
  case (Put now k' v)
  with assms have "k \<noteq> k'" by auto
  from cache_set_start [OF this, of d "fst cs" now v "snd cs"] Put show ?thesis by simp
next
  case (Get now k')
  with cache_get_start [of d "fst cs" now k' "snd cs" k] show ?thesis by simp
qed

lemma cache_run_start:
  assumes "\<forall>op \<in> set ops. \<not> puts_key k op"
    and "map_option ent_start (cache_find (fst cs) k) = None \<or>
         map_option ent_start (cache_find (fst cs) k) = Some t0"
  shows "map_option ent_start (cache_find (fst (cache_run d ops cs)) k) = None \<or>
         map_option ent_start (cache_find (fst (cache_run d ops cs)) k) = Some t0"
  using assms
proof (induction ops arbitrary: cs)
  case Nil
  then show ?case by (simp add: cache_run_def)
next
  case (Cons op ops)
  from Cons.prems(1) have np: "\<not> puts_key k op" and rest: "\<forall>op \<in> set ops. \<not> puts_key k op"
    by simp_all
  from cache_step_start [OF np, of d cs] Cons.prems(2)
  have "map_option ent_start (cache_find (fst (cache_step d cs op)) k) = None \<or>
        map_option ent_start (cache_find (fst (cache_step d cs op)) k) = Some t0"
    by presburger
  from Cons.IH [OF rest this] show ?case by (simp add: cache_run_def)
qed

lemma cache_get_expired:
  assumes "cache_find c k = Some e" and "ent_start e + cache_ttl c < now"
  shows "cache_get (connCache_dispose drv) c now k s =
           (Inr None, c\<lparr> entries := cache_without k (entries c) \<rparr>,
            snd (connCache_dispose drv (ent_value e) s))"
  using assms
  by (simp add: cache_get_def is_stale_def dispose_eq)

lemma cache_get_absent_or_expired:
  assumes "map_option ent_start (cache_find c k) = None \<or>
           map_option ent_start (cache_find c k) = Some t0"
    and "t0 + cache_ttl c < now"
  shows "fst (cache_get (connCache_dispose drv) c now k s) = Inr None"
proof (cases "cache_find c k")
  case None
  then show ?thesis by (simp add: cache_get_def)
next
  case (Some e)
  with assms have "ent_start e + cache_ttl c < now" by simp
  from cache_get_expired [OF Some this, of drv s] show ?thesis by simp
qed

lemma inspect_database_expired:
  assumes "cache_find (connCache srv) k = Some e"
    and "ent_start e + cache_ttl (connCache srv) < now"
  shows "inspect_database drv now k srv =
           (Inl (no_connection k),
            \<lparr> connCache = (connCache srv)\<lparr> entries := cache_without k (entries (connCache srv)) \<rparr>,
              system = snd (connCache_dispose drv (ent_value e) (system srv)) \<rparr>)"
  by (simp add: inspect_database_def cache_get_expired [OF assms])

text \<open>
  Claim C5.  The registry of the source keeps the time-to-live of five minutes through
  every operation.  A \<open>get\<close> that finds an entry leaves the start of the age of every
  entry as it was, so no \<open>get\<close> renews an entry.  After a \<open>put\<close> at time \<open>t0\<close>, whatever
  operations follow that do not put the same identifier again, a \<open>get\<close> of the identifier
  at a time more than five minutes after \<open>t0\<close> answers absent.  The \<open>get\<close> that finds an
  entry older than the time-to-live answers absent, removes the entry and runs the
  disposal hook on its adapter, which is \<open>disconnect\<close> of that adapter.  The
  \<open>inspect_database\<close> handler then fails with the error that there is no connection for
  the identifier, and calls no operation of the adapter but the \<open>disconnect\<close> of the
  disposal.
\<close>

theorem C5_ttl_expiry:
  "(\<forall>ops s0. cache_ttl (fst (cache_run (connCache_dispose drv) ops (connCache_empty, s0)))
       = 1000 * 60 * 5) \<and>
   (\<forall>v' c' s'. cache_get (connCache_dispose drv) c now k' s = (Inr (Some v'), c', s') \<longrightarrow>
       map_option ent_start (cache_find c' k) = map_option ent_start (cache_find c k)) \<and>
   (cache_ttl c = 1000 * 60 * 5 \<and> (\<forall>op \<in> set ops. \<not> puts_key k op) \<and>
    t0 + 1000 * 60 * 5 < now \<longrightarrow>
      fst (cache_get (connCache_dispose drv)
             (fst (cache_run (connCache_dispose drv) ops
                     (snd (cache_set (connCache_dispose drv) c t0 k v s))))
             now k
             (snd (cache_run (connCache_dispose drv) ops
                     (snd (cache_set (connCache_dispose drv) c t0 k v s))))) = Inr None) \<and>
   (cache_find c k = Some e \<and> ent_start e + cache_ttl c < now \<longrightarrow>
      cache_get (connCache_dispose drv) c now k s =
        (Inr None, c\<lparr> entries := cache_without k (entries c) \<rparr>,
         snd (connCache_dispose drv (ent_value e) s)) \<and>
      cache_find (c\<lparr> entries := cache_without k (entries c) \<rparr>) k = None \<and>
      connCache_dispose drv (ent_value e) s =
        (Inr (), snd (snd (disconnect drv (ent_value e) s))) \<and>
      trace (snd (connCache_dispose drv (ent_value e) s)) =
        trace s @ close_events (ent_value e)) \<and>
   (cache_find (connCache srv) k = Some e \<and> ent_start e + cache_ttl (connCache srv) < now \<longrightarrow>
      inspect_database drv now k srv =
        (Inl (no_connection k),
         \<lparr> connCache = (connCache srv)\<lparr> entries := cache_without k (entries (connCache srv)) \<rparr>,
           system = snd (connCache_dispose drv (ent_value e) (system srv)) \<rparr>))"
proof (intro conjI allI impI)
  fix ops :: "AnyDatabaseManager cache_op list" and s0 :: "'a sys"
  show "cache_ttl (fst (cache_run (connCache_dispose drv) ops (connCache_empty, s0))) = 1000 * 60 * 5"
    by (simp add: registry_reachable)
next
  fix v' c' s'
  assume "cache_get (connCache_dispose drv) c now k' s = (Inr (Some v'), c', s')"
  then show "map_option ent_start (cache_find c' k) = map_option ent_start (cache_find c k)"
    by (rule cache_get_keeps_start)
next
  let ?D = "connCache_dispose drv"
  let ?cs = "snd (cache_set ?D c t0 k v s)"
  assume h: "cache_ttl c = 1000 * 60 * 5 \<and> (\<forall>op \<in> set ops. \<not> puts_key k op) \<and>
             t0 + 1000 * 60 * 5 < now"
  have "map_option ent_start (cache_find (fst ?cs) k) = Some t0"
    by (simp add: cache_set_finds)
  with h cache_run_start [of ops k ?cs t0 ?D]
  have st: "map_option ent_start (cache_find (fst (cache_run ?D ops ?cs)) k) = None \<or>
            map_option ent_start (cache_find (fst (cache_run ?D ops ?cs)) k) = Some t0"
    by blast
  have "cache_ttl (fst ?cs) = cache_ttl c" by (simp add: cache_set_params)
  moreover have "cache_ttl (fst (cache_run ?D ops ?cs)) = cache_ttl (fst ?cs)"
    by (induction ops arbitrary: c t0 v s rule: rev_induct)
       (simp_all add: cache_run_def cache_step_params)
  ultimately have "t0 + cache_ttl (fst (cache_run ?D ops ?cs)) < now" using h by simp
  from cache_get_absent_or_expired [OF st this]
  show "fst (cache_get ?D (fst (cache_run ?D ops ?cs)) now k (snd (cache_run ?D ops ?cs))) = Inr None" .
next
  assume h: "cache_find c k = Some e \<and> ent_start e + cache_ttl c < now"
  then show "cache_get (connCache_dispose drv) c now k s =
        (Inr None, c\<lparr> entries := cache_without k (entries c) \<rparr>,
         snd (connCache_dispose drv (ent_value e) s))"
    by (simp add: cache_get_expired)
  show "cache_find (c\<lparr> entries := cache_without k (entries c) \<rparr>) k = None"
    by (simp add: cache_find_def find_without_same)
  show "connCache_dispose drv (ent_value e) s =
        (Inr (), snd (snd (disconnect drv (ent_value e) s)))"
    by (rule dispose_eq)
  show "trace (snd (connCache_dispose drv (ent_value e) s)) = trace s @ close_events (ent_value e)"
    by (simp add: dispose_system disconnect_trace)
next
  assume "cache_find (connCache srv) k = Some e \<and> ent_start e + cache_ttl (connCache srv) < now"
  then show "inspect_database drv now k srv =
        (Inl (no_connection k),
         \<lparr> connCache = (connCache srv)\<lparr> entries := cache_without k (entries (connCache srv)) \<rparr>,
           system = snd (connCache_dispose drv (ent_value e) (system srv)) \<rparr>)"
    by (simp add: inspect_database_expired)
qed

theorem C5_ttl_expiry_witness:
  "cache_find (connCache demo_server) ''s1'' =
     Some \<lparr> ent_key = ''s1'', ent_value = demo_mysql, ent_start = 10, ent_used = 10 \<rparr> \<and>
   10 + cache_ttl (connCache demo_server) < 300011 \<and>
   inspect_database demo_driver 300011 ''s1'' demo_server =
     (Inl (Error ''No connection found for ID: s1''),
      \<lparr> connCache = connCache_empty
          \<lparr> entries :=
              [\<lparr> ent_key = ''s2'', ent_value = demo_postgres, ent_start = 20, ent_used = 20 \<rparr>] \<rparr>,
        system = \<lparr> world = 1, trace = [MysqlEnd 1],
                   console = [(''Error disconnecting from MySQL:'', Error ''closed'')] \<rparr> \<rparr>) \<and>
   fst (cache_get (connCache_dispose demo_driver)
          (fst (cache_run (connCache_dispose demo_driver) [Get 100 ''s9'', Get 300000 ''s9'']
                  (snd (cache_set (connCache_dispose demo_driver) connCache_empty 5 ''s9''
                          demo_mysql sys0))))
          300006 ''s9''
          (snd (cache_run (connCache_dispose demo_driver) [Get 100 ''s9'', Get 300000 ''s9'']
                  (snd (cache_set (connCache_dispose demo_driver) connCache_empty 5 ''s9''
                          demo_mysql sys0))))) = Inr None"
proof -
  let ?e = "\<lparr> ent_key = ''s1'', ent_value = demo_mysql, ent_start = 10, ent_used = 10 \<rparr>"
  have f: "cache_find (connCache demo_server) ''s1'' = Some ?e"
    by (simp add: cache_find_def demo_server_def connCache_empty_def)
  have t: "ent_start ?e + cache_ttl (connCache demo_server) < 300011"
    by (simp add: demo_server_def connCache_empty_def)
  have d: "snd (connCache_dispose demo_driver demo_mysql sys0) =
             \<lparr> world = 1, trace = [MysqlEnd 1],
               console = [(''Error disconnecting from MySQL:'', Error ''closed'')] \<rparr>"
    by (simp add: connCache_dispose_def demo_mysql_def mysql_disconnect_def issue_def
        demo_driver_def sys0_def console_error_def)
  have w: "(connCache demo_server)\<lparr> entries := cache_without ''s1'' (entries (connCache demo_server)) \<rparr> =
           connCache_empty
             \<lparr> entries :=
                 [\<lparr> ent_key = ''s2'', ent_value = demo_postgres, ent_start = 20, ent_used = 20 \<rparr>] \<rparr>"
    by (simp add: demo_server_def cache_without_def)
  have s: "system demo_server = sys0" by (simp add: demo_server_def)
  have g: "\<forall>op \<in> set [Get 100 ''s9'', Get 300000 ''s9'' :: AnyDatabaseManager cache_op].
             \<not> puts_key ''s9'' op"
    by simp
  have c: "cache_ttl connCache_empty = 1000 * 60 * 5" by (simp add: connCache_empty_def)
  have n: "(5::nat) + 1000 * 60 * 5 < 300006" by simp
  from C5_ttl_expiry [of demo_driver connCache_empty 300006 "''s1''" sys0 "''s9''"
         "[Get 100 ''s9'', Get 300000 ''s9'']" 5 demo_mysql ?e demo_server] c g n
  have end_to_end:
    "fst (cache_get (connCache_dispose demo_driver)
          (fst (cache_run (connCache_dispose demo_driver) [Get 100 ''s9'', Get 300000 ''s9'']
                  (snd (cache_set (connCache_dispose demo_driver) connCache_empty 5 ''s9''
                          demo_mysql sys0))))
          300006 ''s9''
          (snd (cache_run (connCache_dispose demo_driver) [Get 100 ''s9'', Get 300000 ''s9'']
                  (snd (cache_set (connCache_dispose demo_driver) connCache_empty 5 ''s9''
                          demo_mysql sys0))))) = Inr None"
    by blast
  from C5_ttl_expiry [of demo_driver connCache_empty 300011 "''s1''" sys0 "''s1''"
         "[]" 5 demo_mysql ?e demo_server] f t
  have "inspect_database demo_driver 300011 ''s1'' demo_server =
        (Inl (no_connection ''s1''),
         \<lparr> connCache = (connCache demo_server)
             \<lparr> entries := cache_without ''s1'' (entries (connCache demo_server)) \<rparr>,
           system = snd (connCache_dispose demo_driver (ent_value ?e) (system demo_server)) \<rparr>)"
    by blast
  then have "inspect_database demo_driver 300011 ''s1'' demo_server =
     (Inl (Error ''No connection found for ID: s1''),
      \<lparr> connCache = connCache_empty
          \<lparr> entries :=
              [\<lparr> ent_key = ''s2'', ent_value = demo_postgres, ent_start = 20, ent_used = 20 \<rparr>] \<rparr>,
        system = \<lparr> world = 1, trace = [MysqlEnd 1],
                   console = [(''Error disconnecting from MySQL:'', Error ''closed'')] \<rparr> \<rparr>)"
    unfolding w s by (simp add: d no_connection_def)
  with f t end_to_end show ?thesis by simp
qed

section \<open>Introspection of the scenario\<close>

lemma mysql_sql_distinct:
  "mysql_sql_tables \<noteq> mysql_sql_db_name" "mysql_sql_columns \<noteq> mysql_sql_db_name"
  "mysql_sql_columns \<noteq> mysql_sql_tables" "mysql_sql_foreign_keys \<noteq> mysql_sql_db_name"
  "mysql_sql_foreign_keys \<noteq> mysql_sql_tables" "mysql_sql_foreign_keys \<noteq> mysql_sql_columns"
  by (simp_all add: mysql_sql_db_name_def mysql_sql_tables_def mysql_sql_columns_def
      mysql_sql_foreign_keys_def)

lemma pg_sql_distinct:
  "pg_sql_tables \<noteq> pg_sql_db_name" "pg_sql_columns \<noteq> pg_sql_db_name"
  "pg_sql_columns \<noteq> pg_sql_tables" "pg_sql_foreign_keys \<noteq> pg_sql_db_name"
  "pg_sql_foreign_keys \<noteq> pg_sql_tables" "pg_sql_foreign_keys \<noteq> pg_sql_columns"
  by (simp_all add: pg_sql_db_name_def pg_sql_tables_def pg_sql_columns_def
      pg_sql_foreign_keys_def)

lemma mysql_scenario:
  "fst (introspect (mysql_live shop_mysql)
          (Mysql \<lparr> my_config = demo_config ''mysql'', my_conn = Some 1 \<rparr>) sys0) =
     Inr \<lparr> layout_name = JStr ''shop'',
           tables = [customers_schema ''int'', orders_schema ''int'' ''orders_ibfk_1''] \<rparr>"
  by (simp add: mysql_introspect_def promise_all_tables_def second_step_def
      mysql_table_columns_def mysql_table_foreign_keys_def mysql_mapped_def mysql_rows_of_def
      issue_def mysql_live_def mysql_answer_def shop_mysql_def mysql_sql_distinct
      mysql_column_def mysql_foreign_key_def get_prop_def inherited_def object_prototype_keys_def sql_text_def js_or_def
      first_db_name_def demo_config_def sys0_def orders_schema_def customers_schema_def)

lemma pg_scenario:
  "fst (introspect (pg_live shop_pg)
          (Postgresql \<lparr> pg_config = demo_config ''postgres'', pg_conn = Some 2 \<rparr>) sys0) =
     Inr \<lparr> layout_name = JStr ''shop'', tables = [lost_table, lost_table] \<rparr>"
  by (simp add: pg_introspect_def promise_all_tables_def second_step_def
      pg_table_columns_def pg_table_foreign_keys_def pg_mapped_def pg_rows_of_def
      issue_def pg_live_def pg_answer_def shop_pg_def pg_sql_distinct
      pg_column_def pg_foreign_key_def get_prop_def inherited_def object_prototype_keys_def sql_text_def js_or_def
      first_db_name_def demo_config_def sys0_def lost_table_def pg_primary_key_columns_def
      pg_left_join_def pg_column_row_def)

lemma pg_scenario_trace:
  "trace (snd (snd (introspect (pg_live shop_pg)
          (Postgresql \<lparr> pg_config = demo_config ''postgres'', pg_conn = Some 2 \<rparr>) sys0))) =
     [PgQuery 2 pg_sql_db_name [], PgQuery 2 pg_sql_tables [],
      PgQuery 2 pg_sql_columns [JUndefined], PgQuery 2 pg_sql_columns [JUndefined],
      PgQuery 2 pg_sql_foreign_keys [JUndefined], PgQuery 2 pg_sql_foreign_keys [JUndefined]]"
  by (simp add: pg_introspect_def promise_all_tables_def second_step_def
      pg_table_columns_def pg_table_foreign_keys_def pg_mapped_def pg_rows_of_def
      issue_def pg_live_def pg_answer_def shop_pg_def pg_sql_distinct
      pg_column_def pg_foreign_key_def get_prop_def inherited_def object_prototype_keys_def sql_text_def js_or_def
      first_db_name_def demo_config_def sys0_def lost_table_def pg_primary_key_columns_def
      pg_left_join_def pg_column_row_def)

lemma pg_tables_if_named:
  "fst (promise_all_tables (pg_table_columns (pg_live shop_pg) 2)
          (pg_table_foreign_keys (pg_live shop_pg) 2) [JStr ''customers'', JStr ''orders''] sys0) =
     Inr [customers_schema ''integer'', orders_schema ''integer'' ''orders_customer_id_fkey'']"
  by (simp add: promise_all_tables_def second_step_def
      pg_table_columns_def pg_table_foreign_keys_def pg_mapped_def pg_rows_of_def
      issue_def pg_live_def pg_answer_def shop_pg_def pg_sql_distinct
      pg_column_def pg_foreign_key_def get_prop_def inherited_def object_prototype_keys_def sql_text_def
      sys0_def pg_primary_key_columns_def
      pg_left_join_def pg_column_row_def orders_schema_def customers_schema_def)

text \<open>
  Claim C1.  On the scenario \<open>orders(id PK, customer_id FK -> customers.id)\<close> the MySQL
  adapter returns the table \<open>orders\<close> with the key column flagged, the other column not
  flagged, and the one foreign key.  The Postgres adapter does not: the statement that
  lists the tables selects \<open>TABLE_NAME\<close> without an alias, PostgreSQL labels the column
  \<open>table_name\<close>, and the adapter reads the key \<open>TABLE_NAME\<close> of each row, which is
  \<open>undefined\<close>.  Every table then has the name \<open>undefined\<close>; its columns and foreign-key
  statements are sent with the parameter \<open>undefined\<close> and return no row.  Given the two
  table names, the rest of the Postgres path returns what the claim says.
\<close>

theorem C1_introspect_scenario:
  "fst (introspect (mysql_live shop_mysql)
          (Mysql \<lparr> my_config = demo_config ''mysql'', my_conn = Some 1 \<rparr>) sys0) =
     Inr \<lparr> layout_name = JStr ''shop'',
           tables = [customers_schema ''int'', orders_schema ''int'' ''orders_ibfk_1''] \<rparr> \<and>
   fst (introspect (pg_live shop_pg)
          (Postgresql \<lparr> pg_config = demo_config ''postgres'', pg_conn = Some 2 \<rparr>) sys0) =
     Inr \<lparr> layout_name = JStr ''shop'', tables = [lost_table, lost_table] \<rparr> \<and>
   trace (snd (snd (introspect (pg_live shop_pg)
          (Postgresql \<lparr> pg_config = demo_config ''postgres'', pg_conn = Some 2 \<rparr>) sys0))) =
     [PgQuery 2 pg_sql_db_name [], PgQuery 2 pg_sql_tables [],
      PgQuery 2 pg_sql_columns [JUndefined], PgQuery 2 pg_sql_columns [JUndefined],
      PgQuery 2 pg_sql_foreign_keys [JUndefined], PgQuery 2 pg_sql_foreign_keys [JUndefined]] \<and>
   fst (promise_all_tables (pg_table_columns (pg_live shop_pg) 2)
          (pg_table_foreign_keys (pg_live shop_pg) 2) [JStr ''customers'', JStr ''orders''] sys0) =
     Inr [customers_schema ''integer'', orders_schema ''integer'' ''orders_customer_id_fkey'']"
  using mysql_scenario pg_scenario pg_scenario_trace pg_tables_if_named by (intro conjI)

end
